theory Spec2Isabelle
  imports Main "HOL-Library.Word"
begin

unbundle bit_operations_syntax

section \<open>Values shared by the packages\<close>

text \<open>
  A Go \<^verbatim>\<open>string\<close> and a \<^verbatim>\<open>[]byte\<close> are sequences of bytes; \<^verbatim>\<open>len\<close> counts
  bytes. A string is a \<^typ>\<open>string\<close> (a list of 8-bit characters), a byte slice a list of
  8-bit words. A \<^verbatim>\<open>nil\<close> byte slice and an empty one both have length 0 and are
  both the empty list: the code below only ever takes their length.
\<close>

type_synonym byte = "8 word"

text \<open>
  Errors are values. \<^verbatim>\<open>errors.New\<close>, \<^verbatim>\<open>errors.Errorf\<close> and \<^verbatim>\<open>errors.Annotate\<close>
  are the constructors of \<^verbatim>\<open>github.com/juju/errors\<close>; \<^verbatim>\<open>InvalidByteError\<close> and
  \<^verbatim>\<open>ErrLength\<close> are those of \<^verbatim>\<open>encoding/hex\<close>; \<open>External\<close> is an error handed
  back by a collaborator whose code is not part of the sources (the network, the
  address detection, the handshake codec). \<^verbatim>\<open>net.IP\<close> is a byte slice that may be
  \<^verbatim>\<open>nil\<close>.
\<close>

type_synonym net_IP = "byte list option"

datatype error =
    New string
  | Errorf string net_IP
  | Annotate error string
  | InvalidByteError char
  | ErrLength
  | External string

section \<open>Package config\<close>

subsection \<open>The standard library functions NewConfig calls\<close>

text \<open>\<^verbatim>\<open>strings.HasPrefix\<close> and \<^verbatim>\<open>strings.TrimPrefix\<close>: one occurrence of the prefix is cut.\<close>

definition HasPrefix :: "string \<Rightarrow> string \<Rightarrow> bool" where
  "HasPrefix s prefix = (length prefix \<le> length s \<and> take (length prefix) s = prefix)"

definition TrimPrefix :: "string \<Rightarrow> string \<Rightarrow> string" where
  "TrimPrefix s prefix = (if HasPrefix s prefix then drop (length prefix) s else s)"

text \<open>
  \<^verbatim>\<open>encoding/hex\<close>: \<open>fromHexChar\<close> reads one digit by its byte value (\<^verbatim>\<open>'0'..'9'\<close> is
  48..57, \<^verbatim>\<open>'a'..'f'\<close> is 97..102, \<^verbatim>\<open>'A'..'F'\<close> is 65..70). \<open>DecodeString\<close> walks the
  string two characters at a time and stops at the first character that is no digit; a
  single character left over at the end is \<open>ErrLength\<close> when it is a digit.
\<close>

definition fromHexChar :: "char \<Rightarrow> byte option" where
  "fromHexChar c =
     (let n = (of_char c :: nat) in
      if 48 \<le> n \<and> n \<le> 57 then Some (word_of_nat (n - 48))
      else if 97 \<le> n \<and> n \<le> 102 then Some (word_of_nat (n - 97 + 10))
      else if 65 \<le> n \<and> n \<le> 70 then Some (word_of_nat (n - 65 + 10))
      else None)"

fun DecodeString :: "string \<Rightarrow> error + byte list" where
  "DecodeString [] = Inr []"
| "DecodeString [c] =
     (case fromHexChar c of None \<Rightarrow> Inl (InvalidByteError c) | Some _ \<Rightarrow> Inl ErrLength)"
| "DecodeString (p # q # rest) =
     (case fromHexChar p of
        None \<Rightarrow> Inl (InvalidByteError p)
      | Some a \<Rightarrow>
         (case fromHexChar q of
            None \<Rightarrow> Inl (InvalidByteError q)
          | Some b \<Rightarrow>
             (case DecodeString rest of
                Inl e \<Rightarrow> Inl e
              | Inr bs \<Rightarrow> Inr ((push_bit 4 a OR b) # bs))))"

text \<open>
  \<^verbatim>\<open>net.IP.To4\<close>: a 4-byte address is returned as it is, a 16-byte address with the
  prefix of an IPv4-mapped one (ten zero bytes, then \<^verbatim>\<open>0xff 0xff\<close>) gives its last four
  bytes, and everything else, \<^verbatim>\<open>nil\<close> included, gives \<^verbatim>\<open>nil\<close>.
\<close>

definition isZeros :: "byte list \<Rightarrow> bool" where
  "isZeros p = list_all (\<lambda>b. b = 0) p"

definition To4 :: "net_IP \<Rightarrow> net_IP" where
  "To4 ip =
     (case ip of
        None \<Rightarrow> None
      | Some bs \<Rightarrow>
          if length bs = 4 then Some bs
          else if length bs = 16 \<and> isZeros (take 10 bs) \<and> bs ! 10 = 0xff \<and> bs ! 11 = 0xff
            then Some (drop 12 bs)
          else None)"

subsection \<open>Config and NewConfig\<close>

record Config =
  Debug :: bool
  Verbose :: bool
  BindPort :: "16 word"
  PublicIPv4Port :: "16 word"
  PublicIPv6Port :: "16 word"
  StatsPort :: "16 word"
  BindIP :: net_IP
  PublicIPv4 :: net_IP
  PublicIPv6 :: net_IP
  StatsIP :: net_IP
  Secret :: "byte list"
  AdTag :: "byte list"

definition UseMiddleProxy :: "Config \<Rightarrow> bool" where
  "UseMiddleProxy c = (length (AdTag c) > 0)"

text \<open>
  \<open>NewConfig\<close>. The two address detectors \<^verbatim>\<open>getGlobalIPv4\<close> and \<^verbatim>\<open>getGlobalIPv6\<close>
  ask an external service and are not part of the sources: what each would return
  (a pair of an address and an error in Go, here an error or an address) is a parameter,
  read only on the path that makes the call. The three stages follow the source in its
  order: the secret, the advertising tag, the public addresses.
\<close>

definition detectIPv4 :: "(error + net_IP) \<Rightarrow> net_IP \<Rightarrow> error + net_IP" where
  "detectIPv4 getGlobalIPv4 publicIPv4 =
     (if publicIPv4 = None then
        (case getGlobalIPv4 of
           Inl err \<Rightarrow> Inr None
         | Inr ip \<Rightarrow> if To4 ip = None then Inl (Errorf ''IP %s is not IPv4'' ip) else Inr ip)
      else Inr publicIPv4)"

definition detectIPv6 :: "(error + net_IP) \<Rightarrow> net_IP \<Rightarrow> error + net_IP" where
  "detectIPv6 getGlobalIPv6 publicIPv6 =
     (if publicIPv6 = None then
        (case getGlobalIPv6 of
           Inl err \<Rightarrow> Inr None
         | Inr ip \<Rightarrow> if To4 ip \<noteq> None then Inl (Errorf ''IP %s is not IPv6'' ip) else Inr ip)
      else Inr publicIPv6)"

definition decodeAdTag :: "string \<Rightarrow> error + byte list" where
  "decodeAdTag adtag =
     (if length adtag \<noteq> 0 then
        (case DecodeString adtag of
           Inl err \<Rightarrow> Inl (Annotate err ''Cannot create config'')
         | Inr bs \<Rightarrow> Inr bs)
      else Inr [])"

definition NewConfig ::
  "(error + net_IP) \<Rightarrow> (error + net_IP) \<Rightarrow> bool \<Rightarrow> bool \<Rightarrow> net_IP \<Rightarrow> 16 word \<Rightarrow>
   net_IP \<Rightarrow> 16 word \<Rightarrow> net_IP \<Rightarrow> 16 word \<Rightarrow> net_IP \<Rightarrow> 16 word \<Rightarrow>
   string \<Rightarrow> string \<Rightarrow> error + Config" where
  "NewConfig getGlobalIPv4 getGlobalIPv6 debug verbose bindIP bindPort
     publicIPv4 publicIPv4Port publicIPv6 publicIPv6Port statsIP statsPort secret adtag =
     (let secret' = TrimPrefix secret ''dd'' in
      if length secret' \<noteq> 32 then Inl (New ''Telegram demands secret of length 32'')
      else case DecodeString secret' of
        Inl err \<Rightarrow> Inl (Annotate err ''Cannot create config'')
      | Inr secretBytes \<Rightarrow>
      (case decodeAdTag adtag of
        Inl err \<Rightarrow> Inl err
      | Inr adTagBytes \<Rightarrow>
      (case detectIPv4 getGlobalIPv4 publicIPv4 of
        Inl err \<Rightarrow> Inl err
      | Inr publicIPv4' \<Rightarrow>
      (case detectIPv6 getGlobalIPv6 publicIPv6 of
        Inl err \<Rightarrow> Inl err
      | Inr publicIPv6' \<Rightarrow>
         Inr \<lparr> Debug = debug, Verbose = verbose,
               BindPort = bindPort,
               PublicIPv4Port = (if publicIPv4Port = 0 then bindPort else publicIPv4Port),
               PublicIPv6Port = (if publicIPv6Port = 0 then bindPort else publicIPv6Port),
               StatsPort = statsPort,
               BindIP = bindIP,
               PublicIPv4 = publicIPv4',
               PublicIPv6 = publicIPv6',
               StatsIP = (if statsIP = None then publicIPv4' else statsIP),
               Secret = secretBytes,
               AdTag = adTagBytes \<rparr>))))"

text \<open>
  The specification's words for a well-formed secret or tag: 32 hexadecimal digits, of
  either case.
\<close>

definition is_hex_digit :: "char \<Rightarrow> bool" where
  "is_hex_digit c = (c \<in> set ''0123456789abcdefABCDEF'')"

definition hex32 :: "string \<Rightarrow> bool" where
  "hex32 s = (length s = 32 \<and> list_all is_hex_digit s)"

section \<open>What the client and proxy packages share\<close>

text \<open>
  A network address as \<^verbatim>\<open>net.Conn.RemoteAddr\<close> hands it back: the interface value
  holds a \<^verbatim>\<open>*net.TCPAddr\<close> or something else. A connection is known by its
  descriptor and its peer. \<^verbatim>\<open>time.Time{}\<close> is the zero time, which as a deadline
  means none; every other time is a count of nanoseconds.
\<close>

record TCPAddr =
  IP :: net_IP
  Port :: int
  Zone :: string

datatype net_Addr = TCP TCPAddr | OtherAddr string

record net_Conn =
  fd :: nat
  RemoteAddr :: net_Addr

datatype time_Time = ZeroTime | TimeAt int

type_synonym cipher_Stream = "byte list \<times> byte list"

record Obfuscated2 =
  Decryptor :: cipher_Stream
  Encryptor :: cipher_Stream

text \<open>
  Modelled from the spec: \<^verbatim>\<open>mtproto.ConnectionOpts\<close>, whose declaration is not in the
  sources. The fields are those the code reads and writes (\<open>ConnectionProto\<close>,
  \<open>ClientAddr\<close>, \<open>ReadHacks\<close>, \<open>WriteHacks\<close> with \<open>QuickAck\<close> and \<open>SimpleAck\<close>)
  and the two the specification adds: the data-center id, a signed 16-bit integer, and
  the transport type.
\<close>

datatype ConnectionType = ConnectionTypeAbridged | ConnectionTypeIntermediate | ConnectionTypeSecure

datatype ConnectionProtocol = ConnectionProtocolIPv4 | ConnectionProtocolIPv6 | ConnectionProtocolAny

record Hacks =
  QuickAck :: bool
  SimpleAck :: bool

record ConnectionOpts =
  DC :: "16 word"
  ConnectionType :: ConnectionType
  ConnectionProto :: ConnectionProtocol
  ClientAddr :: "TCPAddr option"
  ReadHacks :: Hacks
  WriteHacks :: Hacks

text \<open>
  The stream wrappers of package \<^verbatim>\<open>wrappers\<close>. Each constructor takes the stream it
  wraps; \<open>RawConn\<close> is the accepted socket itself, and \<open>OtherRWC\<close> stands for a wrapper
  that a package outside the sources builds. The logger, the statistics callbacks, the
  context and its cancel function are the same for every wrapper of one connection and
  are not arguments here.
\<close>

datatype stream =
    RawConn net_Conn
  | TimeoutRWC stream string net_IP net_IP
  | StreamCipherRWC (inner: stream) (read_cipher: cipher_Stream) (write_cipher: cipher_Stream)
  | TrafficRWC stream
  | LogRWC stream string string
  | CtxRWC stream
  | OtherRWC string stream

definition NewTimeoutRWC :: "net_Conn \<Rightarrow> string \<Rightarrow> net_IP \<Rightarrow> net_IP \<Rightarrow> stream" where
  "NewTimeoutRWC conn socketID publicIPv4 publicIPv6 =
     TimeoutRWC (RawConn conn) socketID publicIPv4 publicIPv6"

text \<open>
  Modelled from the spec: \<^verbatim>\<open>wrappers.NewStreamCipherRWC\<close>, whose code is not in the
  sources. The specification says that the cipher wrapper applies one transform to each
  read buffer and one to each write buffer, and that the stack \<open>direct_init\<close> builds has
  \<^verbatim>\<open>{read: Encryptor, write: Decryptor}\<close>. DirectInit passes the Encryptor as the first
  cipher and the Decryptor as the second, so the first cipher argument is the read-side
  transform and the second the write-side one.
\<close>

definition NewStreamCipherRWC :: "stream \<Rightarrow> cipher_Stream \<Rightarrow> cipher_Stream \<Rightarrow> stream" where
  "NewStreamCipherRWC conn first second =
     StreamCipherRWC conn first second"

definition NewTrafficRWC :: "stream \<Rightarrow> stream" where
  "NewTrafficRWC conn = TrafficRWC conn"

definition NewLogRWC :: "stream \<Rightarrow> string \<Rightarrow> string \<Rightarrow> stream" where
  "NewLogRWC conn socketID name = LogRWC conn socketID name"

definition NewCtxRWC :: "stream \<Rightarrow> stream" where
  "NewCtxRWC conn = CtxRWC conn"

text \<open>The wrappers of a stream, outermost first.\<close>

datatype layer = Ctx | Logging | Traffic | Cipher | Timeout | Socket | Other string

fun layers :: "stream \<Rightarrow> layer list" where
  "layers (RawConn c) = [Socket]"
| "layers (TimeoutRWC s i a b) = Timeout # layers s"
| "layers (StreamCipherRWC s r w) = Cipher # layers s"
| "layers (TrafficRWC s) = Traffic # layers s"
| "layers (LogRWC s i n) = Logging # layers s"
| "layers (CtxRWC s) = Ctx # layers s"
| "layers (OtherRWC n s) = Other n # layers s"

text \<open>
  What a run does besides returning is a list of events, oldest first: the calls on the
  statistics, the log lines with their fields, the calls on the accepted socket and on
  the two streams, the goroutines started, the calls of \<open>pump\<close> that return (with the
  connection options as they stand at the call and the buffers handed to the
  destination), and the release of the wait group.
\<close>

datatype log_method = Debugw | Infow | Warnw | Errorw | Warn

type_synonym panic_value = string

datatype log_value = Str string | AddrString net_Addr | Err error | Recovered panic_value

datatype goroutine = ClientPump | TelegramPump

datatype event =
    newConnection
  | closeConnection
  | LogEntry log_method string "(string \<times> log_value) list"
  | SetSocketOptions
  | SetReadDeadline time_Time
  | ExtractFrame
  | Close_conn
  | Close_clientConn
  | Close_tgConn
  | Go goroutine
  | Pump ConnectionOpts "byte list list"
  | WaitDone

text \<open>
  A Go call returns or panics. The calls into packages outside the sources that one
  connection makes are gathered in a record, the environment of the connection: what
  each of them hands back is a field, read where the code makes the call.
\<close>

datatype 'a go_result = Returned 'a | Panicked panic_value

record pump_io =
  ReadCurrentData_result :: "byte list \<times> error option"
  Write_result :: "byte list \<Rightarrow> nat \<times> error option"
  hacks_effect :: "ConnectionOpts \<Rightarrow> ConnectionOpts"
  panic_in_pump :: "panic_value option"

record conn_env =
  now :: int
  socketID_of :: string
  SetSocketOptions_result :: "error option"
  ExtractFrame_result :: "error + byte list"
  ParseObfuscated2ClientFrame_result ::
    "byte list \<Rightarrow> byte list \<Rightarrow> error + (Obfuscated2 \<times> ConnectionOpts)"
  MiddleInit_result :: "event list \<times> (error + (stream \<times> ConnectionOpts)) go_result"
  Dial_result :: "(error + stream) go_result"
  Init_result :: "ConnectionOpts \<Rightarrow> stream \<Rightarrow> (error + stream) go_result"
  wait_returns :: bool

section \<open>Package client\<close>

definition Second :: int where
  "Second = 1000000000"

definition handshakeTimeout :: int where
  "handshakeTimeout = 10 * Second"

text \<open>
  \<open>DirectInit\<close>. The errors of the two \<^verbatim>\<open>SetReadDeadline\<close> calls are dropped, as in the
  source. The type assertion \<^verbatim>\<open>conn.RemoteAddr().(*net.TCPAddr)\<close> has the single-value
  form, which panics when the address is no \<^verbatim>\<open>*net.TCPAddr\<close>.
\<close>

definition DirectInit ::
  "conn_env \<Rightarrow> net_Conn \<Rightarrow> string \<Rightarrow> Config \<Rightarrow>
   event list \<times> (error + (stream \<times> ConnectionOpts)) go_result" where
  "DirectInit env conn socketID conf =
     (case SetSocketOptions_result env of
        Some err \<Rightarrow> ([SetSocketOptions], Returned (Inl (Annotate err ''Cannot set socket options'')))
      | None \<Rightarrow>
         (let evs = [SetSocketOptions,
                     SetReadDeadline (TimeAt (now env + handshakeTimeout)),
                     ExtractFrame,
                     SetReadDeadline ZeroTime]
          in case ExtractFrame_result env of
            Inl err \<Rightarrow> (evs, Returned (Inl (Annotate err ''Cannot extract frame'')))
          | Inr frame \<Rightarrow>
             (case ParseObfuscated2ClientFrame_result env (Secret conf) frame of
                Inl err \<Rightarrow> (evs, Returned (Inl (Annotate err ''Cannot parse obfuscated frame'')))
              | Inr (obfs2, connOpts) \<Rightarrow>
                 (case RemoteAddr conn of
                    OtherAddr n \<Rightarrow> (evs, Panicked ''interface conversion: net.Addr is not *net.TCPAddr'')
                  | TCP addr \<Rightarrow>
                     (let connOpts = connOpts\<lparr>ConnectionProto := ConnectionProtocolAny\<rparr>;
                          connOpts = connOpts\<lparr>ClientAddr := Some addr\<rparr>;
                          socket = NewTimeoutRWC conn socketID (PublicIPv4 conf) (PublicIPv6 conf);
                          socket = NewStreamCipherRWC socket (Encryptor obfs2) (Decryptor obfs2)
                      in (evs, Returned (Inr (socket, connOpts))))))))"

section \<open>Package proxy\<close>

text \<open>
  The two strategies a server holds are named by tags: the client initialiser is
  \<^verbatim>\<open>client.DirectInit\<close> or \<^verbatim>\<open>client.MiddleInit\<close>, the dialer is what
  \<^verbatim>\<open>telegram.NewDirectTelegram\<close> or \<^verbatim>\<open>telegram.NewMiddleTelegram\<close> builds from the
  configuration. The logger and the statistics of a server are where its events go.
\<close>

datatype client_Init = client_DirectInit | client_MiddleInit

datatype telegram_Telegram = DirectTelegram Config | MiddleTelegram Config

definition NewDirectTelegram :: "Config \<Rightarrow> telegram_Telegram" where
  "NewDirectTelegram conf = DirectTelegram conf"

definition NewMiddleTelegram :: "Config \<Rightarrow> telegram_Telegram" where
  "NewMiddleTelegram conf = MiddleTelegram conf"

record Server =
  conf :: Config
  tg :: telegram_Telegram
  clientInit :: client_Init

definition NewServer :: "Config \<Rightarrow> Server" where
  "NewServer conf' =
     (let clientInit' = client_DirectInit;
          tg' = NewDirectTelegram;
          (clientInit', tg') =
             (if length (AdTag conf') > 0 then (client_MiddleInit, NewMiddleTelegram)
              else (clientInit', tg'))
      in \<lparr> conf = conf', tg = tg' conf', clientInit = clientInit' \<rparr>)"

text \<open>
  Calling the client initialiser a server holds: \<open>DirectInit\<close> is the function above,
  \<^verbatim>\<open>MiddleInit\<close> is not in the sources and its outcome comes from the environment.
\<close>

definition call_clientInit ::
  "client_Init \<Rightarrow> conn_env \<Rightarrow> net_Conn \<Rightarrow> string \<Rightarrow> Config \<Rightarrow>
   event list \<times> (error + (stream \<times> ConnectionOpts)) go_result" where
  "call_clientInit f env conn socketID conf' =
     (case f of
        client_DirectInit \<Rightarrow> DirectInit env conn socketID conf'
      | client_MiddleInit \<Rightarrow> MiddleInit_result env)"

definition getClientStream ::
  "Server \<Rightarrow> conn_env \<Rightarrow> net_Conn \<Rightarrow> string \<Rightarrow>
   event list \<times> (error + (ConnectionOpts \<times> stream)) go_result" where
  "getClientStream s env conn socketID =
     (case call_clientInit (clientInit s) env conn socketID (conf s) of
        (evs, Panicked r) \<Rightarrow> (evs, Panicked r)
      | (evs, Returned (Inl err)) \<Rightarrow>
          (evs, Returned (Inl (Annotate err ''Cannot init client connection'')))
      | (evs, Returned (Inr (socket, connOpts))) \<Rightarrow>
          (let socket = NewTrafficRWC socket;
               socket = NewLogRWC socket socketID ''client'';
               socket = NewCtxRWC socket
           in (evs, Returned (Inr (connOpts, socket)))))"

definition getTelegramStream ::
  "Server \<Rightarrow> conn_env \<Rightarrow> ConnectionOpts \<Rightarrow> string \<Rightarrow> (error + stream) go_result" where
  "getTelegramStream s env connOpts socketID =
     (case Dial_result env of
        Panicked r \<Rightarrow> Panicked r
      | Returned (Inl err) \<Rightarrow> Returned (Inl (Annotate err ''Cannot connect to Telegram''))
      | Returned (Inr conn) \<Rightarrow>
         (let conn = NewTrafficRWC conn
          in case Init_result env connOpts conn of
               Panicked r \<Rightarrow> Panicked r
             | Returned (Inl err) \<Rightarrow> Returned (Inl (Annotate err ''Cannot handshake Telegram''))
             | Returned (Inr conn) \<Rightarrow>
                (let conn = NewLogRWC conn socketID ''telegram'';
                     conn = NewCtxRWC conn
                 in Returned (Inr conn))))"

text \<open>
  \<open>pump\<close>. \<^verbatim>\<open>utils.ReadCurrentData\<close> and the destination's \<^verbatim>\<open>Write\<close> are not in the
  sources: the first parameter is what the read hands back (the buffer and the error),
  the second what \<^verbatim>\<open>dst.Write\<close> returns for a buffer (the count and the error). The
  result is the list of the buffers handed to \<^verbatim>\<open>dst.Write\<close>, in order, and the error
  \<open>pump\<close> returns.
\<close>

definition pump ::
  "(byte list \<times> error option) \<Rightarrow> (byte list \<Rightarrow> nat \<times> error option) \<Rightarrow>
   byte list list \<times> error option" where
  "pump ReadCurrentData_src dst_Write =
     (let (buf, err) = ReadCurrentData_src
      in case err of
           Some e \<Rightarrow> ([], Some (Annotate e ''Cannot pump the socket''))
         | None \<Rightarrow> (let (n, err) = dst_Write buf in ([buf], err)))"

text \<open>
  The loops of the two goroutines of \<open>accept\<close>, each in its own program order. A loop
  runs until a \<open>pump\<close> returns an error; the list gives, pass by pass, what the streams
  do in that pass (\<open>hacks_effect\<close> is what their wrappers do to the shared connection
  options while the bytes move), and a loop that has used the list up is still pumping.
  The callees of \<open>pump\<close> (\<^verbatim>\<open>utils.ReadCurrentData\<close>, the \<^verbatim>\<open>Read\<close> and \<^verbatim>\<open>Write\<close> of
  the wrappers) are outside the sources and may panic as any Go call may:
  \<open>panic_in_pump\<close> is the panic raised in the pass, if any. Neither \<open>pump\<close> nor the
  loop recovers, so the panic ends the loop.
\<close>

datatype loop_end = Pumping | Aborted error | PanicIn panic_value

fun client_pump_loop ::
  "string \<Rightarrow> pump_io list \<Rightarrow> ConnectionOpts \<Rightarrow> event list \<times> ConnectionOpts \<times> loop_end" where
  "client_pump_loop socketID [] connOpts = ([], connOpts, Pumping)"
| "client_pump_loop socketID (io # rest) connOpts =
     (let connOpts = connOpts\<lparr>ReadHacks := (ReadHacks connOpts)\<lparr>QuickAck := False\<rparr>\<rparr>;
          connOpts = connOpts\<lparr>ReadHacks := (ReadHacks connOpts)\<lparr>SimpleAck := False\<rparr>\<rparr>
      in case panic_in_pump io of
           Some r \<Rightarrow> ([], connOpts, PanicIn r)
         | None \<Rightarrow>
             (let (writes, err) = pump (ReadCurrentData_result io) (Write_result io);
                  called = Pump connOpts writes;
                  connOpts = hacks_effect io connOpts
              in case err of
                   Some e \<Rightarrow>
                     ([called,
                       LogEntry Infow ''Client stream is aborted''
                         [(''socketid'', Str socketID), (''error'', Err e)]],
                      connOpts, Aborted e)
                 | None \<Rightarrow>
                     (let (evs, connOpts, fin) = client_pump_loop socketID rest connOpts
                      in (called # evs, connOpts, fin))))"

fun telegram_pump_loop ::
  "string \<Rightarrow> pump_io list \<Rightarrow> ConnectionOpts \<Rightarrow> event list \<times> ConnectionOpts \<times> loop_end" where
  "telegram_pump_loop socketID [] connOpts = ([], connOpts, Pumping)"
| "telegram_pump_loop socketID (io # rest) connOpts =
     (let connOpts = connOpts\<lparr>WriteHacks := (WriteHacks connOpts)\<lparr>QuickAck := False\<rparr>\<rparr>;
          connOpts = connOpts\<lparr>WriteHacks := (WriteHacks connOpts)\<lparr>SimpleAck := False\<rparr>\<rparr>
      in case panic_in_pump io of
           Some r \<Rightarrow> ([], connOpts, PanicIn r)
         | None \<Rightarrow>
             (let (writes, err) = pump (ReadCurrentData_result io) (Write_result io);
                  called = Pump connOpts writes;
                  connOpts = hacks_effect io connOpts
              in case err of
                   Some e \<Rightarrow>
                     ([called,
                       LogEntry Infow ''Telegram stream is aborted''
                         [(''socketid'', Str socketID), (''error'', Err e)]],
                      connOpts, Aborted e)
                 | None \<Rightarrow>
                     (let (evs, connOpts, fin) = telegram_pump_loop socketID rest connOpts
                      in (called # evs, connOpts, fin))))"

text \<open>
  \<open>accept\<close>, the handler of one connection. Its body runs to a \<^verbatim>\<open>return\<close>, to a
  panic, or stays blocked in \<^verbatim>\<open><-ctx.Done()\<close> and \<^verbatim>\<open>wait.Wait()\<close> (the context is
  cancelled and the wait group released by code outside the sources, so whether the
  wait returns comes from the environment). The deferred calls are kept on a stack,
  newest first, and run when the body returns or panics: Go runs them last in first
  out, hands the panic under way to \<^verbatim>\<open>recover\<close>, and a panic that no deferred call
  recovers ends the goroutine with a crash, and with it the whole process, the accept
  loop included. The calls of the deferred function literal
  itself (\<^verbatim>\<open>closeConnection\<close>, \<^verbatim>\<open>conn.Close\<close>) are events. A panic is possible where the
  handler's goroutine calls through a strategy or an interface into other packages:
  the client initialiser and the dialer's \<^verbatim>\<open>Dial\<close> and \<^verbatim>\<open>Init\<close>.
\<close>

datatype deferred = cleanup | clientConn_Close | tgConn_Close | wait_Done

datatype body_end = Return | Panic panic_value | Blocked

datatype goroutine_end = Done | Waiting | Crashed panic_value

fun run_deferred_call :: "deferred \<Rightarrow> panic_value option \<Rightarrow> event list \<times> panic_value option" where
  "run_deferred_call wait_Done p = ([WaitDone], p)"
| "run_deferred_call tgConn_Close p = ([Close_tgConn], p)"
| "run_deferred_call clientConn_Close p = ([Close_clientConn], p)"
| "run_deferred_call cleanup p =
     ([closeConnection, Close_conn] @
      (case p of
         Some r \<Rightarrow> [LogEntry Errorw ''Crash of accept handler'' [(''error'', Recovered r)]]
       | None \<Rightarrow> []),
      None)"

fun run_deferred :: "deferred list \<Rightarrow> panic_value option \<Rightarrow> event list \<times> panic_value option" where
  "run_deferred [] p = ([], p)"
| "run_deferred (d # ds) p =
     (let (evs1, p1) = run_deferred_call d p;
          (evs2, p2) = run_deferred ds p1
      in (evs1 @ evs2, p2))"

definition accept_body ::
  "Server \<Rightarrow> conn_env \<Rightarrow> net_Conn \<Rightarrow> event list \<times> deferred list \<times> body_end" where
  "accept_body s env conn =
     (let defers = [cleanup];
          socketID = socketID_of env;
          evs = [newConnection,
                 LogEntry Debugw ''Client connected''
                   [(''addr'', AddrString (RemoteAddr conn)), (''socketid'', Str socketID)]]
      in case getClientStream s env conn socketID of
           (evs1, Panicked r) \<Rightarrow> (evs @ evs1, defers, Panic r)
         | (evs1, Returned (Inl err)) \<Rightarrow>
             (evs @ evs1 @
              [LogEntry Warnw ''Cannot initialize client connection''
                 [(''addr'', AddrString (RemoteAddr conn)), (''socketid'', Str socketID),
                  (''error'', Err err)]],
              defers, Return)
         | (evs1, Returned (Inr (connOpts, clientConn))) \<Rightarrow>
             (let defers = clientConn_Close # defers
              in case getTelegramStream s env connOpts socketID of
                   Panicked r \<Rightarrow> (evs @ evs1, defers, Panic r)
                 | Returned (Inl err) \<Rightarrow>
                     (evs @ evs1 @
                      [LogEntry Warnw ''Cannot initialize Telegram connection''
                         [(''socketid'', Str socketID), (''error'', Err err)]],
                      defers, Return)
                 | Returned (Inr tgConn) \<Rightarrow>
                     (let defers = tgConn_Close # defers;
                          evs2 = evs @ evs1 @ [Go ClientPump, Go TelegramPump]
                      in if wait_returns env
                         then (evs2 @
                               [LogEntry Debugw ''Client disconnected''
                                  [(''addr'', AddrString (RemoteAddr conn)),
                                   (''socketid'', Str socketID)]],
                               defers, Return)
                         else (evs2, defers, Blocked))))"

definition accept :: "Server \<Rightarrow> conn_env \<Rightarrow> net_Conn \<Rightarrow> event list \<times> goroutine_end" where
  "accept s env conn =
     (case accept_body s env conn of
        (evs, defers, Blocked) \<Rightarrow> (evs, Waiting)
      | (evs, defers, fin) \<Rightarrow>
          (let (evs', p) = run_deferred defers (case fin of Panic r \<Rightarrow> Some r | _ \<Rightarrow> None)
           in (evs @ evs', case p of None \<Rightarrow> Done | Some r \<Rightarrow> Crashed r)))"

text \<open>
  The two goroutines \<open>accept\<close> starts (the function literals at \<^verbatim>\<open>go func()\<close>). Each
  defers \<^verbatim>\<open>wait.Done()\<close> and nothing else, and runs its loop: it ends when its loop
  returns, it is still running while the loop pumps, and a panic in the loop meets no
  \<^verbatim>\<open>recover\<close> on its way out.
\<close>

definition client_pump_goroutine ::
  "string \<Rightarrow> pump_io list \<Rightarrow> ConnectionOpts \<Rightarrow> event list \<times> goroutine_end" where
  "client_pump_goroutine socketID ios connOpts =
     (let defers = [wait_Done]
      in case client_pump_loop socketID ios connOpts of
           (evs, opts, Pumping) \<Rightarrow> (evs, Waiting)
         | (evs, opts, fin) \<Rightarrow>
             (let (evs', p) = run_deferred defers (case fin of PanicIn r \<Rightarrow> Some r | _ \<Rightarrow> None)
              in (evs @ evs', case p of None \<Rightarrow> Done | Some r \<Rightarrow> Crashed r)))"

definition telegram_pump_goroutine ::
  "string \<Rightarrow> pump_io list \<Rightarrow> ConnectionOpts \<Rightarrow> event list \<times> goroutine_end" where
  "telegram_pump_goroutine socketID ios connOpts =
     (let defers = [wait_Done]
      in case telegram_pump_loop socketID ios connOpts of
           (evs, opts, Pumping) \<Rightarrow> (evs, Waiting)
         | (evs, opts, fin) \<Rightarrow>
             (let (evs', p) = run_deferred defers (case fin of PanicIn r \<Rightarrow> Some r | _ \<Rightarrow> None)
              in (evs @ evs', case p of None \<Rightarrow> Done | Some r \<Rightarrow> Crashed r)))"

text \<open>
  \<open>Serve\<close>. The loop has no exit, so a run is followed along the results that
  \<^verbatim>\<open>lsock.Accept\<close> hands back one after the other: each is answered by a warning in the
  log or by a goroutine running \<open>accept\<close> on the connection. After any number of
  results \<open>Serve\<close> is still in its loop; it has returned only when \<^verbatim>\<open>net.Listen\<close>
  failed.
\<close>

datatype serve_event = Logged log_method string "(string \<times> log_value) list" | GoAccept net_Conn

datatype serving = Exited error | InLoop "serve_event list"

fun serve_loop :: "(error + net_Conn) list \<Rightarrow> serve_event list" where
  "serve_loop [] = []"
| "serve_loop (Inl err # rest) =
     Logged Warn ''Cannot allocate incoming connection'' [(''error'', Err err)] # serve_loop rest"
| "serve_loop (Inr conn # rest) = GoAccept conn # serve_loop rest"

definition Serve :: "(error + nat) \<Rightarrow> (error + net_Conn) list \<Rightarrow> serving" where
  "Serve Listen_result Accept_results =
     (case Listen_result of
        Inl err \<Rightarrow> Exited (Annotate err ''Cannot create listen socket'')
      | Inr lsock \<Rightarrow> InLoop (serve_loop Accept_results))"

section \<open>The specification's words\<close>

text \<open>
  The specification's words for the pump loops and for the public addresses. The flags
  of a direction are reset when both are false and nothing else of the options has
  changed. The options a pass starts from are those the loop was started with, taken
  through the passes before it: each resets the flags, then the wrappers do what they
  do. A pass goes through when \<open>pump\<close> neither panics nor returns an error. The public
  address a configuration ends with is the one given, else the one detected, else none.
\<close>

definition ReadHacks_reset :: "ConnectionOpts \<Rightarrow> ConnectionOpts" where
  "ReadHacks_reset opts = opts\<lparr>ReadHacks := \<lparr> QuickAck = False, SimpleAck = False \<rparr>\<rparr>"

definition WriteHacks_reset :: "ConnectionOpts \<Rightarrow> ConnectionOpts" where
  "WriteHacks_reset opts = opts\<lparr>WriteHacks := \<lparr> QuickAck = False, SimpleAck = False \<rparr>\<rparr>"

fun options_after ::
  "(ConnectionOpts \<Rightarrow> ConnectionOpts) \<Rightarrow> pump_io list \<Rightarrow> ConnectionOpts \<Rightarrow> ConnectionOpts" where
  "options_after reset [] opts = opts"
| "options_after reset (io # rest) opts = options_after reset rest (hacks_effect io (reset opts))"

definition goes_through :: "pump_io \<Rightarrow> bool" where
  "goes_through io =
     (panic_in_pump io = None \<and>
      snd (pump (ReadCurrentData_result io) (Write_result io)) = None)"

definition stored_address :: "(error + net_IP) \<Rightarrow> net_IP \<Rightarrow> net_IP" where
  "stored_address detected given =
     (case given of
        Some a \<Rightarrow> Some a
      | None \<Rightarrow> (case detected of Inl err \<Rightarrow> None | Inr ip \<Rightarrow> ip))"

section \<open>A connection to run the definitions on\<close>

text \<open>
  One concrete connection: a peer with a TCP address, a 64-byte frame that the codec
  accepts, a server in direct mode and one in middle-proxy mode, and two passes of a pump whose
  wrappers set both acknowledgement flags of both directions while the bytes move.
\<close>

definition example_addr :: TCPAddr where
  "example_addr = \<lparr> IP = Some [192, 0, 2, 1], Port = 50000, Zone = '''' \<rparr>"

definition example_conn :: net_Conn where
  "example_conn = \<lparr> fd = 7, RemoteAddr = TCP example_addr \<rparr>"

definition example_unix_conn :: net_Conn where
  "example_unix_conn = \<lparr> fd = 8, RemoteAddr = OtherAddr ''unix'' \<rparr>"

definition example_obfs2 :: Obfuscated2 where
  "example_obfs2 = \<lparr> Decryptor = (replicate 32 0xd0, replicate 16 0xd1),
                      Encryptor = (replicate 32 0xe0, replicate 16 0xe1) \<rparr>"

definition example_opts :: ConnectionOpts where
  "example_opts = \<lparr> DC = 2, ConnectionType = ConnectionTypeIntermediate,
                     ConnectionProto = ConnectionProtocolIPv4, ClientAddr = None,
                     ReadHacks = \<lparr> QuickAck = True, SimpleAck = True \<rparr>,
                     WriteHacks = \<lparr> QuickAck = True, SimpleAck = True \<rparr> \<rparr>"

definition example_env :: conn_env where
  "example_env =
     \<lparr> now = 1700000000000000000,
       socketID_of = ''6ba7b810-9dad-11d1-80b4-00c04fd430c8'',
       SetSocketOptions_result = None,
       ExtractFrame_result = Inr (replicate 64 0x5a),
       ParseObfuscated2ClientFrame_result =
         (\<lambda>secret frame. if length secret = 16 \<and> length frame = 64
                          then Inr (example_obfs2, example_opts)
                          else Inl (External ''unknown transport'')),
       MiddleInit_result = ([SetSocketOptions], Returned (Inl (External ''cannot set socket options''))),
       Dial_result = Returned (Inr (OtherRWC ''telegram'' (RawConn \<lparr> fd = 9, RemoteAddr = OtherAddr ''dc'' \<rparr>))),
       Init_result = (\<lambda>opts conn. Returned (Inr conn)),
       wait_returns = True \<rparr>"

definition example_conf :: Config where
  "example_conf =
     \<lparr> Debug = False, Verbose = False, BindPort = 3128, PublicIPv4Port = 3128,
       PublicIPv6Port = 3128, StatsPort = 3129, BindIP = None, PublicIPv4 = None,
       PublicIPv6 = None, StatsIP = None, Secret = replicate 16 0x42, AdTag = [] \<rparr>"

definition example_pass :: pump_io where
  "example_pass =
     \<lparr> ReadCurrentData_result = ([0x01, 0x02], None),
       Write_result = (\<lambda>b. (length b, None)),
       hacks_effect = (\<lambda>opts. opts\<lparr> ReadHacks := \<lparr> QuickAck = True, SimpleAck = True \<rparr>,
                                    WriteHacks := \<lparr> QuickAck = True, SimpleAck = True \<rparr> \<rparr>),
       panic_in_pump = None \<rparr>"

section \<open>Verification: package config\<close>

subsection \<open>Hexadecimal decoding\<close>

lemma fromHexChar_is_hex_digit: "(fromHexChar c \<noteq> None) = is_hex_digit c"
proof
  assume "is_hex_digit c"
  then show "fromHexChar c \<noteq> None"
    unfolding is_hex_digit_def by (auto simp: fromHexChar_def)
next
  assume a: "fromHexChar c \<noteq> None"
  define n where "n = (of_char c :: nat)"
  from a have "(48 \<le> n \<and> n \<le> 57) \<or> (97 \<le> n \<and> n \<le> 102) \<or> (65 \<le> n \<and> n \<le> 70)"
    unfolding fromHexChar_def Let_def n_def by (simp split: if_splits)
  then have "n \<in> of_char ` set ''0123456789abcdefABCDEF''"
    by simp arith
  then obtain h where h: "h \<in> set ''0123456789abcdefABCDEF''" and eq: "(of_char c :: nat) = of_char h"
    unfolding n_def by blast
  from eq have "c = h" by (rule of_char_eq_iff[THEN iffD1])
  with h show "is_hex_digit c" by (simp only: is_hex_digit_def)
qed

lemma DecodeString_Inr_iff:
  "(\<exists>bs. DecodeString s = Inr bs) = (even (length s) \<and> list_all is_hex_digit s)"
proof (induction s rule: DecodeString.induct)
  case 1
  show ?case by simp
next
  case (2 c)
  show ?case by (simp split: option.splits)
next
  case (3 p q rest)
  show ?case
  proof (cases "fromHexChar p")
    case None
    then show ?thesis using fromHexChar_is_hex_digit[of p] by simp
  next
    case (Some a)
    note pa = this
    show ?thesis
    proof (cases "fromHexChar q")
      case None
      then show ?thesis using pa fromHexChar_is_hex_digit[of q] by simp
    next
      case (Some b)
      have hp: "is_hex_digit p" using pa fromHexChar_is_hex_digit[of p] by simp
      have hq: "is_hex_digit q" using Some fromHexChar_is_hex_digit[of q] by simp
      have "(\<exists>bs. DecodeString (p # q # rest) = Inr bs) = (\<exists>bs. DecodeString rest = Inr bs)"
        using pa Some by (cases "DecodeString rest") simp_all
      then show ?thesis
        using 3[OF pa Some] hp hq by simp
    qed
  qed
qed

lemma DecodeString_length:
  "DecodeString s = Inr bs \<Longrightarrow> 2 * length bs = length s"
  by (induction s arbitrary: bs rule: DecodeString.induct)
     (auto split: option.splits sum.splits)

lemma DecodeString_cases: "(\<exists>e. DecodeString s = Inl e) \<or> (\<exists>bs. DecodeString s = Inr bs)"
  by (cases "DecodeString s") simp_all

subsection \<open>The secret\<close>

lemma NewConfig_Inr_iff:
  "(NewConfig g4 g6 debug verbose bindIP bindPort p4 p4port p6 p6port statsIP statsPort s adtag = Inr c)
   = (\<exists>sb ab a4 a6.
        length (TrimPrefix s ''dd'') = 32 \<and> DecodeString (TrimPrefix s ''dd'') = Inr sb \<and>
        decodeAdTag adtag = Inr ab \<and> detectIPv4 g4 p4 = Inr a4 \<and> detectIPv6 g6 p6 = Inr a6 \<and>
        c = \<lparr> Debug = debug, Verbose = verbose, BindPort = bindPort,
              PublicIPv4Port = (if p4port = 0 then bindPort else p4port),
              PublicIPv6Port = (if p6port = 0 then bindPort else p6port),
              StatsPort = statsPort, BindIP = bindIP, PublicIPv4 = a4, PublicIPv6 = a6,
              StatsIP = (if statsIP = None then a4 else statsIP),
              Secret = sb, AdTag = ab \<rparr>)"
  unfolding NewConfig_def Let_def
  by (auto split: sum.splits)

lemma NewConfig_secret_error:
  assumes "\<not> hex32 (TrimPrefix s ''dd'')"
  shows "\<exists>e. NewConfig g4 g6 debug verbose bindIP bindPort p4 p4port p6 p6port statsIP statsPort s adtag = Inl e"
proof (cases "length (TrimPrefix s ''dd'') = 32")
  case False
  then show ?thesis by (simp add: NewConfig_def)
next
  case True
  with assms have "\<not> (\<exists>bs. DecodeString (TrimPrefix s ''dd'') = Inr bs)"
    unfolding DecodeString_Inr_iff hex32_def by simp
  then obtain e where "DecodeString (TrimPrefix s ''dd'') = Inl e"
    using DecodeString_cases by blast
  then show ?thesis using True by (simp add: NewConfig_def)
qed

text \<open>
  Claim C1. \<open>NewConfig\<close> accepts a secret exactly when the secret, with one leading
  \<^verbatim>\<open>dd\<close> cut off, is 32 hexadecimal digits of either case. Whenever the later stages
  (the advertising tag and the two public addresses) raise no error of their own,
  \<open>NewConfig\<close> succeeds if and only if the stripped secret is such a string; whatever
  the other arguments are, a stripped secret of another length or with a character that
  is no hexadecimal digit gives an error; and the empty string, \<^verbatim>\<open>dd\<close>, \<^verbatim>\<open>dd\<close> followed by
  31 digits and sixteen times \<^verbatim>\<open>zz\<close> are all refused.
\<close>

theorem NewConfig_secret_law:
  "(decodeAdTag adtag = Inr ab \<and> detectIPv4 g4 p4 = Inr a4 \<and> detectIPv6 g6 p6 = Inr a6 \<longrightarrow>
      ((\<exists>c. NewConfig g4 g6 debug verbose bindIP bindPort p4 p4port p6 p6port statsIP statsPort s adtag = Inr c)
        = hex32 (TrimPrefix s ''dd''))) \<and>
   (\<not> hex32 (TrimPrefix s ''dd'') \<longrightarrow>
      (\<exists>e. NewConfig g4 g6 debug verbose bindIP bindPort p4 p4port p6 p6port statsIP statsPort s adtag = Inl e)) \<and>
   (\<forall>bad \<in> {'''', ''dd'', ''dd0123456789abcdef0123456789abcde'', ''zzzzzzzzzzzzzzzzzzzzzzzzzzzzzzzz''}.
      \<exists>e. NewConfig g4 g6 debug verbose bindIP bindPort p4 p4port p6 p6port statsIP statsPort bad adtag = Inl e)"
proof (intro conjI impI ballI)
  assume rest: "decodeAdTag adtag = Inr ab \<and> detectIPv4 g4 p4 = Inr a4 \<and> detectIPv6 g6 p6 = Inr a6"
  show "(\<exists>c. NewConfig g4 g6 debug verbose bindIP bindPort p4 p4port p6 p6port statsIP statsPort s adtag = Inr c)
        = hex32 (TrimPrefix s ''dd'')"
  proof
    assume "\<exists>c. NewConfig g4 g6 debug verbose bindIP bindPort p4 p4port p6 p6port statsIP statsPort s adtag = Inr c"
    then have "length (TrimPrefix s ''dd'') = 32" and "\<exists>bs. DecodeString (TrimPrefix s ''dd'') = Inr bs"
      unfolding NewConfig_Inr_iff by blast+
    then show "hex32 (TrimPrefix s ''dd'')"
      unfolding DecodeString_Inr_iff hex32_def by simp
  next
    assume h: "hex32 (TrimPrefix s ''dd'')"
    then have "\<exists>bs. DecodeString (TrimPrefix s ''dd'') = Inr bs"
      unfolding DecodeString_Inr_iff hex32_def by simp
    then obtain sb where "DecodeString (TrimPrefix s ''dd'') = Inr sb" by blast
    moreover have "length (TrimPrefix s ''dd'') = 32" using h by (simp add: hex32_def)
    ultimately show "\<exists>c. NewConfig g4 g6 debug verbose bindIP bindPort p4 p4port p6 p6port statsIP statsPort s adtag = Inr c"
      using rest unfolding NewConfig_Inr_iff by blast
  qed
next
  assume "\<not> hex32 (TrimPrefix s ''dd'')"
  then show "\<exists>e. NewConfig g4 g6 debug verbose bindIP bindPort p4 p4port p6 p6port statsIP statsPort s adtag = Inl e"
    by (rule NewConfig_secret_error)
next
  fix bad :: string
  assume "bad \<in> {'''', ''dd'', ''dd0123456789abcdef0123456789abcde'', ''zzzzzzzzzzzzzzzzzzzzzzzzzzzzzzzz''}"
  then have "\<not> hex32 (TrimPrefix bad ''dd'')"
    by (auto simp: hex32_def TrimPrefix_def HasPrefix_def is_hex_digit_def)
  then show "\<exists>e. NewConfig g4 g6 debug verbose bindIP bindPort p4 p4port p6 p6port statsIP statsPort bad adtag = Inl e"
    by (rule NewConfig_secret_error)
qed

text \<open>
  The law at concrete arguments: no tag, no public address given and both detections
  failing. A secret of \<^verbatim>\<open>dd\<close> and 32 digits is accepted, one of \<^verbatim>\<open>dd\<close> and 31 digits
  and the bare \<^verbatim>\<open>dd\<close> are refused.
\<close>

theorem NewConfig_secret_law_witness:
  "(\<exists>c. NewConfig (Inl (External ''unreachable'')) (Inl (External ''unreachable''))
          False False None 3128 None 0 None 0 None 3129
          ''dd0123456789abcdefABCDEF0123456789'' '''' = Inr c) \<and>
   (\<exists>e. NewConfig (Inl (External ''unreachable'')) (Inl (External ''unreachable''))
          False False None 3128 None 0 None 0 None 3129
          ''dd0123456789abcdefABCDEF012345678'' '''' = Inl e) \<and>
   (\<exists>e. NewConfig (Inl (External ''unreachable'')) (Inl (External ''unreachable''))
          False False None 3128 None 0 None 0 None 3129
          ''dd'' '''' = Inl e)"
proof -
  have rest: "decodeAdTag '''' = Inr [] \<and>
      detectIPv4 (Inl (External ''unreachable'')) None = Inr None \<and>
      detectIPv6 (Inl (External ''unreachable'')) None = Inr None"
    by (simp add: decodeAdTag_def detectIPv4_def detectIPv6_def)
  have good: "hex32 (TrimPrefix ''dd0123456789abcdefABCDEF0123456789'' ''dd'')"
    by (simp add: hex32_def TrimPrefix_def HasPrefix_def is_hex_digit_def)
  have bad: "\<not> hex32 (TrimPrefix ''dd0123456789abcdefABCDEF012345678'' ''dd'')"
    by (simp add: hex32_def TrimPrefix_def HasPrefix_def)
  have dd: "''dd'' \<in> {'''', ''dd'', ''dd0123456789abcdef0123456789abcde'', ''zzzzzzzzzzzzzzzzzzzzzzzzzzzzzzzz''}"
    by simp
  note law = NewConfig_secret_law [of "''''" "[]" "Inl (External ''unreachable'')" None None
      "Inl (External ''unreachable'')" None None False False None 3128 0 0 None 3129]
  show ?thesis
    using law [of "''dd0123456789abcdefABCDEF0123456789''"]
          law [of "''dd0123456789abcdefABCDEF012345678''"] rest good bad dd
    by blast
qed

subsection \<open>The advertising tag\<close>

lemma decodeAdTag_Inr_iff:
  "(\<exists>ab. decodeAdTag adtag = Inr ab) = (even (length adtag) \<and> list_all is_hex_digit adtag)"
proof (cases "adtag = []")
  case True
  then show ?thesis by (simp add: decodeAdTag_def)
next
  case False
  have "(\<exists>ab. decodeAdTag adtag = Inr ab) = (\<exists>ab. DecodeString adtag = Inr ab)"
    using False by (cases "DecodeString adtag") (simp_all add: decodeAdTag_def)
  then show ?thesis by (simp only: DecodeString_Inr_iff)
qed

lemma decodeAdTag_length:
  "decodeAdTag adtag = Inr ab \<Longrightarrow> 2 * length ab = length adtag"
  by (cases "adtag = []")
     (auto simp: decodeAdTag_def DecodeString_length split: sum.splits)

text \<open>
  Claim C2, as stated, fails: \<open>NewConfig\<close> checks no length on the tag, so a tag of two
  hexadecimal digits is accepted and stored as one byte.
\<close>

theorem NewConfig_adtag_counterexample:
  "NewConfig (Inl (External ''unreachable'')) (Inl (External ''unreachable''))
      False False None 3128 None 0 None 0 None 3129
      ''0123456789abcdef0123456789abcdef'' ''ab''
   = Inr \<lparr> Debug = False, Verbose = False, BindPort = 3128, PublicIPv4Port = 3128,
           PublicIPv6Port = 3128, StatsPort = 3129, BindIP = None, PublicIPv4 = None,
           PublicIPv6 = None, StatsIP = None,
           Secret = [0x01, 0x23, 0x45, 0x67, 0x89, 0xab, 0xcd, 0xef,
                     0x01, 0x23, 0x45, 0x67, 0x89, 0xab, 0xcd, 0xef],
           AdTag = [0xab] \<rparr>"
  by (simp add: NewConfig_def TrimPrefix_def HasPrefix_def fromHexChar_def decodeAdTag_def
        detectIPv4_def detectIPv6_def)

text \<open>
  Claim C2, amended. The tag stored by \<open>NewConfig\<close> has half as many bytes as the tag
  string has characters, and an accepted tag string is made of hexadecimal digits: the
  empty string gives the empty tag and a string of 32 digits gives exactly 16 bytes.
  Every string of hexadecimal digits of even length is accepted, whatever its length,
  by arguments that are accepted with no tag.
\<close>

theorem NewConfig_adtag_length:
  "(NewConfig g4 g6 debug verbose bindIP bindPort p4 p4port p6 p6port statsIP statsPort s adtag = Inr c \<longrightarrow>
      2 * length (AdTag c) = length adtag \<and> list_all is_hex_digit adtag \<and>
      (adtag = [] \<longrightarrow> AdTag c = []) \<and>
      (length adtag = 32 \<longrightarrow> length (AdTag c) = 16)) \<and>
   ((\<exists>c'. NewConfig g4 g6 debug verbose bindIP bindPort p4 p4port p6 p6port statsIP statsPort s '''' = Inr c') \<and>
    even (length adtag) \<and> list_all is_hex_digit adtag \<longrightarrow>
      (\<exists>c'. NewConfig g4 g6 debug verbose bindIP bindPort p4 p4port p6 p6port statsIP statsPort s adtag = Inr c'))"
proof (intro conjI impI)
  assume ok: "NewConfig g4 g6 debug verbose bindIP bindPort p4 p4port p6 p6port statsIP statsPort s adtag = Inr c"
  then obtain ab where ab: "decodeAdTag adtag = Inr ab" and c: "AdTag c = ab"
    unfolding NewConfig_Inr_iff by auto
  show len: "2 * length (AdTag c) = length adtag"
    using decodeAdTag_length[OF ab] c by simp
  show "list_all is_hex_digit adtag"
    using decodeAdTag_Inr_iff[of adtag] ab by simp
  show "AdTag c = []" if "adtag = []" using len that by simp
  show "length (AdTag c) = 16" if "length adtag = 32" using len that by simp
next
  assume a: "(\<exists>c'. NewConfig g4 g6 debug verbose bindIP bindPort p4 p4port p6 p6port statsIP statsPort s '''' = Inr c') \<and>
    even (length adtag) \<and> list_all is_hex_digit adtag"
  then obtain ab where "decodeAdTag adtag = Inr ab"
    using decodeAdTag_Inr_iff[of adtag] by blast
  with a show "\<exists>c'. NewConfig g4 g6 debug verbose bindIP bindPort p4 p4port p6 p6port statsIP statsPort s adtag = Inr c'"
    unfolding NewConfig_Inr_iff by blast
qed

text \<open>The amended law at a tag of 32 digits of both cases: it is accepted and gives 16 bytes.\<close>

theorem NewConfig_adtag_length_witness:
  "\<exists>c. NewConfig (Inl (External ''unreachable'')) (Inl (External ''unreachable''))
          False False None 3128 None 0 None 0 None 3129
          ''0123456789abcdef0123456789abcdef'' ''00112233445566778899aAbBcCdDeEfF'' = Inr c \<and>
        length (AdTag c) = 16"
proof -
  have base: "\<exists>c'. NewConfig (Inl (External ''unreachable'')) (Inl (External ''unreachable''))
          False False None 3128 None 0 None 0 None 3129
          ''0123456789abcdef0123456789abcdef'' '''' = Inr c'"
    by (simp add: NewConfig_def TrimPrefix_def HasPrefix_def fromHexChar_def decodeAdTag_def
          detectIPv4_def detectIPv6_def)
  have tag: "even (length ''00112233445566778899aAbBcCdDeEfF'') \<and>
             list_all is_hex_digit ''00112233445566778899aAbBcCdDeEfF''"
    by (simp add: is_hex_digit_def)
  have len: "length ''00112233445566778899aAbBcCdDeEfF'' = 32" by simp
  note law = NewConfig_adtag_length [of "Inl (External ''unreachable'')" "Inl (External ''unreachable'')"
      False False None 3128 None 0 None 0 None 3129 "''0123456789abcdef0123456789abcdef''"
      "''00112233445566778899aAbBcCdDeEfF''"]
  from law base tag obtain c where c: "NewConfig (Inl (External ''unreachable'')) (Inl (External ''unreachable''))
          False False None 3128 None 0 None 0 None 3129
          ''0123456789abcdef0123456789abcdef'' ''00112233445566778899aAbBcCdDeEfF'' = Inr c"
    by blast
  from law [of c] c len have "length (AdTag c) = 16" by blast
  with c show ?thesis by blast
qed

subsection \<open>The public addresses\<close>

lemma detectIPv4_cases:
  "detectIPv4 g4 p4 =
     (if p4 = None \<and> (\<exists>ip. g4 = Inr ip \<and> To4 ip = None)
      then Inl (Errorf ''IP %s is not IPv4'' (projr g4))
      else Inr (stored_address g4 p4))"
  by (auto simp: detectIPv4_def stored_address_def split: sum.splits option.splits)

lemma detectIPv6_cases:
  "detectIPv6 g6 p6 =
     (if p6 = None \<and> (\<exists>ip. g6 = Inr ip \<and> To4 ip \<noteq> None)
      then Inl (Errorf ''IP %s is not IPv6'' (projr g6))
      else Inr (stored_address g6 p6))"
  by (auto simp: detectIPv6_def stored_address_def split: sum.splits option.splits)

lemma NewConfig_after_secret_and_tag:
  assumes "hex32 (TrimPrefix s ''dd'')" and "even (length adtag)" and "list_all is_hex_digit adtag"
  shows "\<exists>sb ab. \<forall>g4 g6 p4 p6.
           NewConfig g4 g6 debug verbose bindIP bindPort p4 p4port p6 p6port statsIP statsPort s adtag =
             (case detectIPv4 g4 p4 of
                Inl err \<Rightarrow> Inl err
              | Inr a4 \<Rightarrow>
                 (case detectIPv6 g6 p6 of
                    Inl err \<Rightarrow> Inl err
                  | Inr a6 \<Rightarrow>
                     Inr \<lparr> Debug = debug, Verbose = verbose, BindPort = bindPort,
                           PublicIPv4Port = (if p4port = 0 then bindPort else p4port),
                           PublicIPv6Port = (if p6port = 0 then bindPort else p6port),
                           StatsPort = statsPort, BindIP = bindIP, PublicIPv4 = a4,
                           PublicIPv6 = a6, StatsIP = (if statsIP = None then a4 else statsIP),
                           Secret = sb, AdTag = ab \<rparr>))"
proof -
  from assms(1) have len: "length (TrimPrefix s ''dd'') = 32" by (simp add: hex32_def)
  from assms(1) have "\<exists>bs. DecodeString (TrimPrefix s ''dd'') = Inr bs"
    unfolding DecodeString_Inr_iff hex32_def by simp
  then obtain sb where sb: "DecodeString (TrimPrefix s ''dd'') = Inr sb" by blast
  from assms(2,3) obtain ab where ab: "decodeAdTag adtag = Inr ab"
    using decodeAdTag_Inr_iff[of adtag] by blast
  show ?thesis
    using len sb ab by (intro exI[of _ sb] exI[of _ ab]) (simp add: NewConfig_def)
qed

text \<open>
  Claim C10. Let the secret and the tag be well formed. The family checks are made on
  detected addresses only: \<open>NewConfig\<close> fails with ``is not IPv4'' exactly when no
  IPv4 address is given and the detected one has no 4-byte form, and (the IPv4 stage
  passed) with ``is not IPv6'' exactly when no IPv6 address is given and the detected
  one has a 4-byte form. In every other case it succeeds, and each public address of
  the configuration is the one given, else the one detected, else none. So when no
  address of a family is given and its detection fails, that address is left unset and
  \<open>NewConfig\<close> goes on; and an address that is given, for either family and whatever
  is given, detected or failing for the other one, is stored as it is, with no family
  check on it.
\<close>

theorem NewConfig_public_addresses:
  "hex32 (TrimPrefix s ''dd'') \<and> even (length adtag) \<and> list_all is_hex_digit adtag \<longrightarrow>
     (p4 = None \<and> g4 = Inr found \<and> To4 found = None \<longrightarrow>
        NewConfig g4 g6 debug verbose bindIP bindPort p4 p4port p6 p6port statsIP statsPort s adtag
          = Inl (Errorf ''IP %s is not IPv4'' found)) \<and>
     (\<not> (p4 = None \<and> (\<exists>ip. g4 = Inr ip \<and> To4 ip = None)) \<and>
      p6 = None \<and> g6 = Inr found \<and> To4 found \<noteq> None \<longrightarrow>
        NewConfig g4 g6 debug verbose bindIP bindPort p4 p4port p6 p6port statsIP statsPort s adtag
          = Inl (Errorf ''IP %s is not IPv6'' found)) \<and>
     (\<not> (p4 = None \<and> (\<exists>ip. g4 = Inr ip \<and> To4 ip = None)) \<and>
      \<not> (p6 = None \<and> (\<exists>ip. g6 = Inr ip \<and> To4 ip \<noteq> None)) \<longrightarrow>
        (\<exists>c. NewConfig g4 g6 debug verbose bindIP bindPort p4 p4port p6 p6port statsIP statsPort s adtag = Inr c
             \<and> PublicIPv4 c = stored_address g4 p4 \<and> PublicIPv6 c = stored_address g6 p6)) \<and>
     (\<not> (p6 = None \<and> (\<exists>ip. g6 = Inr ip \<and> To4 ip \<noteq> None)) \<longrightarrow>
        (\<exists>c. NewConfig (Inl e4) g6 debug verbose bindIP bindPort None p4port p6 p6port statsIP statsPort s adtag = Inr c
             \<and> PublicIPv4 c = None \<and> PublicIPv6 c = stored_address g6 p6) \<and>
        (\<exists>c. NewConfig g4 g6 debug verbose bindIP bindPort (Some given4) p4port p6 p6port statsIP statsPort s adtag = Inr c
             \<and> PublicIPv4 c = Some given4 \<and> PublicIPv6 c = stored_address g6 p6)) \<and>
     (\<not> (p4 = None \<and> (\<exists>ip. g4 = Inr ip \<and> To4 ip = None)) \<longrightarrow>
        (\<exists>c. NewConfig g4 (Inl e6) debug verbose bindIP bindPort p4 p4port None p6port statsIP statsPort s adtag = Inr c
             \<and> PublicIPv6 c = None \<and> PublicIPv4 c = stored_address g4 p4) \<and>
        (\<exists>c. NewConfig g4 g6 debug verbose bindIP bindPort p4 p4port (Some given6) p6port statsIP statsPort s adtag = Inr c
             \<and> PublicIPv6 c = Some given6 \<and> PublicIPv4 c = stored_address g4 p4)) \<and>
     (\<exists>c. NewConfig g4 g6 debug verbose bindIP bindPort (Some given4) p4port (Some given6) p6port statsIP statsPort s adtag = Inr c
          \<and> PublicIPv4 c = Some given4 \<and> PublicIPv6 c = Some given6)"
proof
  assume "hex32 (TrimPrefix s ''dd'') \<and> even (length adtag) \<and> list_all is_hex_digit adtag"
  then obtain sb ab where run: "\<And>g4 g6 p4 p6.
           NewConfig g4 g6 debug verbose bindIP bindPort p4 p4port p6 p6port statsIP statsPort s adtag =
             (case detectIPv4 g4 p4 of
                Inl err \<Rightarrow> Inl err
              | Inr a4 \<Rightarrow>
                 (case detectIPv6 g6 p6 of
                    Inl err \<Rightarrow> Inl err
                  | Inr a6 \<Rightarrow>
                     Inr \<lparr> Debug = debug, Verbose = verbose, BindPort = bindPort,
                           PublicIPv4Port = (if p4port = 0 then bindPort else p4port),
                           PublicIPv6Port = (if p6port = 0 then bindPort else p6port),
                           StatsPort = statsPort, BindIP = bindIP, PublicIPv4 = a4,
                           PublicIPv6 = a6, StatsIP = (if statsIP = None then a4 else statsIP),
                           Secret = sb, AdTag = ab \<rparr>))"
    using NewConfig_after_secret_and_tag[of s adtag debug verbose bindIP bindPort p4port p6port statsIP statsPort]
    by blast
  have c1: "NewConfig g4 g6 debug verbose bindIP bindPort p4 p4port p6 p6port statsIP statsPort s adtag
          = Inl (Errorf ''IP %s is not IPv4'' found)"
    if "p4 = None \<and> g4 = Inr found \<and> To4 found = None"
    using that by (simp add: run detectIPv4_cases)
  have c2: "NewConfig g4 g6 debug verbose bindIP bindPort p4 p4port p6 p6port statsIP statsPort s adtag
          = Inl (Errorf ''IP %s is not IPv6'' found)"
    if "\<not> (p4 = None \<and> (\<exists>ip. g4 = Inr ip \<and> To4 ip = None)) \<and>
      p6 = None \<and> g6 = Inr found \<and> To4 found \<noteq> None"
    using that by (simp add: run detectIPv4_cases detectIPv6_cases)
  have c3: "\<exists>c. NewConfig g4 g6 debug verbose bindIP bindPort p4 p4port p6 p6port statsIP statsPort s adtag = Inr c
             \<and> PublicIPv4 c = stored_address g4 p4 \<and> PublicIPv6 c = stored_address g6 p6"
    if "\<not> (p4 = None \<and> (\<exists>ip. g4 = Inr ip \<and> To4 ip = None)) \<and>
      \<not> (p6 = None \<and> (\<exists>ip. g6 = Inr ip \<and> To4 ip \<noteq> None))"
    using that by (simp add: run detectIPv4_cases detectIPv6_cases)
  have c4: "(\<exists>c. NewConfig (Inl e4) g6 debug verbose bindIP bindPort None p4port p6 p6port statsIP statsPort s adtag = Inr c
             \<and> PublicIPv4 c = None \<and> PublicIPv6 c = stored_address g6 p6) \<and>
        (\<exists>c. NewConfig g4 g6 debug verbose bindIP bindPort (Some given4) p4port p6 p6port statsIP statsPort s adtag = Inr c
             \<and> PublicIPv4 c = Some given4 \<and> PublicIPv6 c = stored_address g6 p6)"
    if "\<not> (p6 = None \<and> (\<exists>ip. g6 = Inr ip \<and> To4 ip \<noteq> None))"
    using that by (simp add: run detectIPv4_cases detectIPv6_cases stored_address_def)
  have c5: "(\<exists>c. NewConfig g4 (Inl e6) debug verbose bindIP bindPort p4 p4port None p6port statsIP statsPort s adtag = Inr c
             \<and> PublicIPv6 c = None \<and> PublicIPv4 c = stored_address g4 p4) \<and>
        (\<exists>c. NewConfig g4 g6 debug verbose bindIP bindPort p4 p4port (Some given6) p6port statsIP statsPort s adtag = Inr c
             \<and> PublicIPv6 c = Some given6 \<and> PublicIPv4 c = stored_address g4 p4)"
    if "\<not> (p4 = None \<and> (\<exists>ip. g4 = Inr ip \<and> To4 ip = None))"
    using that by (simp add: run detectIPv4_cases detectIPv6_cases stored_address_def)
  have c6: "\<exists>c. NewConfig g4 g6 debug verbose bindIP bindPort (Some given4) p4port (Some given6) p6port statsIP statsPort s adtag = Inr c
          \<and> PublicIPv4 c = Some given4 \<and> PublicIPv6 c = Some given6"
    by (simp add: run detectIPv4_cases detectIPv6_cases stored_address_def)
  show "(p4 = None \<and> g4 = Inr found \<and> To4 found = None \<longrightarrow>
        NewConfig g4 g6 debug verbose bindIP bindPort p4 p4port p6 p6port statsIP statsPort s adtag
          = Inl (Errorf ''IP %s is not IPv4'' found)) \<and>
     (\<not> (p4 = None \<and> (\<exists>ip. g4 = Inr ip \<and> To4 ip = None)) \<and>
      p6 = None \<and> g6 = Inr found \<and> To4 found \<noteq> None \<longrightarrow>
        NewConfig g4 g6 debug verbose bindIP bindPort p4 p4port p6 p6port statsIP statsPort s adtag
          = Inl (Errorf ''IP %s is not IPv6'' found)) \<and>
     (\<not> (p4 = None \<and> (\<exists>ip. g4 = Inr ip \<and> To4 ip = None)) \<and>
      \<not> (p6 = None \<and> (\<exists>ip. g6 = Inr ip \<and> To4 ip \<noteq> None)) \<longrightarrow>
        (\<exists>c. NewConfig g4 g6 debug verbose bindIP bindPort p4 p4port p6 p6port statsIP statsPort s adtag = Inr c
             \<and> PublicIPv4 c = stored_address g4 p4 \<and> PublicIPv6 c = stored_address g6 p6)) \<and>
     (\<not> (p6 = None \<and> (\<exists>ip. g6 = Inr ip \<and> To4 ip \<noteq> None)) \<longrightarrow>
        (\<exists>c. NewConfig (Inl e4) g6 debug verbose bindIP bindPort None p4port p6 p6port statsIP statsPort s adtag = Inr c
             \<and> PublicIPv4 c = None \<and> PublicIPv6 c = stored_address g6 p6) \<and>
        (\<exists>c. NewConfig g4 g6 debug verbose bindIP bindPort (Some given4) p4port p6 p6port statsIP statsPort s adtag = Inr c
             \<and> PublicIPv4 c = Some given4 \<and> PublicIPv6 c = stored_address g6 p6)) \<and>
     (\<not> (p4 = None \<and> (\<exists>ip. g4 = Inr ip \<and> To4 ip = None)) \<longrightarrow>
        (\<exists>c. NewConfig g4 (Inl e6) debug verbose bindIP bindPort p4 p4port None p6port statsIP statsPort s adtag = Inr c
             \<and> PublicIPv6 c = None \<and> PublicIPv4 c = stored_address g4 p4) \<and>
        (\<exists>c. NewConfig g4 g6 debug verbose bindIP bindPort p4 p4port (Some given6) p6port statsIP statsPort s adtag = Inr c
             \<and> PublicIPv6 c = Some given6 \<and> PublicIPv4 c = stored_address g4 p4)) \<and>
     (\<exists>c. NewConfig g4 g6 debug verbose bindIP bindPort (Some given4) p4port (Some given6) p6port statsIP statsPort s adtag = Inr c
          \<and> PublicIPv4 c = Some given4 \<and> PublicIPv6 c = Some given6)"
    using c1 c2 c3 c4 c5 c6 by blast
qed

text \<open>
  The law at concrete arguments. With no address given and both detections failing the
  configuration has no public address. A 16-byte address given as the IPv4 one is
  stored while the IPv6 address is detected, and a 4-byte address given as the IPv6 one
  is stored while the detection of the IPv4 address fails. A detected IPv4 address of
  three bytes is refused.
\<close>

theorem NewConfig_public_addresses_witness:
  "(\<exists>c. NewConfig (Inl (External ''timeout'')) (Inl (External ''timeout''))
          False False None 3128 None 0 None 0 None 3129
          ''0123456789abcdef0123456789abcdef'' '''' = Inr c \<and>
        PublicIPv4 c = None \<and> PublicIPv6 c = None) \<and>
   (\<exists>c. NewConfig (Inl (External ''timeout''))
          (Inr (Some [0x20, 0x01, 0x0d, 0xb8, 0, 0, 0, 0, 0, 0, 0, 0, 0, 0, 0, 2]))
          False False None 3128
          (Some [0x20, 0x01, 0x0d, 0xb8, 0, 0, 0, 0, 0, 0, 0, 0, 0, 0, 0, 1]) 0
          None 0 None 3129
          ''0123456789abcdef0123456789abcdef'' '''' = Inr c \<and>
        PublicIPv4 c = Some [0x20, 0x01, 0x0d, 0xb8, 0, 0, 0, 0, 0, 0, 0, 0, 0, 0, 0, 1] \<and>
        PublicIPv6 c = Some [0x20, 0x01, 0x0d, 0xb8, 0, 0, 0, 0, 0, 0, 0, 0, 0, 0, 0, 2]) \<and>
   (\<exists>c. NewConfig (Inl (External ''timeout'')) (Inl (External ''timeout''))
          False False None 3128 None 0 (Some [10, 0, 0, 1]) 0 None 3129
          ''0123456789abcdef0123456789abcdef'' '''' = Inr c \<and>
        PublicIPv4 c = None \<and> PublicIPv6 c = Some [10, 0, 0, 1]) \<and>
   NewConfig (Inr (Some [1, 2, 3])) (Inl (External ''timeout''))
          False False None 3128 None 0 None 0 None 3129
          ''0123456789abcdef0123456789abcdef'' ''''
     = Inl (Errorf ''IP %s is not IPv4'' (Some [1, 2, 3]))"
proof -
  let ?v6 = "[0x20, 0x01, 0x0d, 0xb8, 0, 0, 0, 0, 0, 0, 0, 0, 0, 0, 0, 2] :: byte list"
  let ?w6 = "[0x20, 0x01, 0x0d, 0xb8, 0, 0, 0, 0, 0, 0, 0, 0, 0, 0, 0, 1] :: byte list"
  let ?off = "Inl (External ''timeout'') :: error + net_IP"
  have pre: "hex32 (TrimPrefix ''0123456789abcdef0123456789abcdef'' ''dd'') \<and>
             even (length '''') \<and> list_all is_hex_digit ''''"
    by (simp add: hex32_def TrimPrefix_def HasPrefix_def is_hex_digit_def)
  have three: "To4 (Some [1, 2, 3]) = None"
    by (simp add: To4_def)
  have six: "To4 (Some ?v6) = None"
    by (simp add: To4_def isZeros_def)
  have st: "stored_address ?off None = None"
      "stored_address (Inr (Some ?v6)) None = Some ?v6"
    by (simp_all add: stored_address_def)
  note law = NewConfig_public_addresses [where s = "''0123456789abcdef0123456789abcdef''"
      and adtag = "''''" and debug = False and verbose = False and bindIP = None
      and bindPort = 3128 and p4port = 0 and p6port = 0 and statsIP = None and statsPort = 3129
      and ?e4.0 = "External ''timeout''" and ?e6.0 = "External ''timeout''"]
  from law [where ?g4.0 = ?off and ?g6.0 = ?off and ?p4.0 = None and ?p6.0 = None] pre
  have a: "\<exists>c. NewConfig ?off ?off False False None 3128 None 0 None 0 None 3129
          ''0123456789abcdef0123456789abcdef'' '''' = Inr c \<and>
        PublicIPv4 c = None \<and> PublicIPv6 c = None"
    using st by auto
  from law [where ?g4.0 = ?off and ?g6.0 = "Inr (Some ?v6)" and ?p6.0 = None and ?given4.0 = ?w6] pre six
  have b: "\<exists>c. NewConfig ?off (Inr (Some ?v6)) False False None 3128 (Some ?w6) 0 None 0 None 3129
          ''0123456789abcdef0123456789abcdef'' '''' = Inr c \<and>
        PublicIPv4 c = Some ?w6 \<and> PublicIPv6 c = Some ?v6"
    using st by auto
  from law [where ?g4.0 = ?off and ?g6.0 = ?off and ?p4.0 = None and ?given6.0 = "[10, 0, 0, 1]"] pre
  have c: "\<exists>c. NewConfig ?off ?off False False None 3128 None 0 (Some [10, 0, 0, 1]) 0 None 3129
          ''0123456789abcdef0123456789abcdef'' '''' = Inr c \<and>
        PublicIPv4 c = None \<and> PublicIPv6 c = Some [10, 0, 0, 1]"
    using st by auto
  from law [where ?g4.0 = "Inr (Some [1, 2, 3])" and ?g6.0 = ?off and ?p4.0 = None and ?p6.0 = None
      and found = "Some [1, 2, 3]"] pre three
  have d: "NewConfig (Inr (Some [1, 2, 3])) ?off False False None 3128 None 0 None 0 None 3129
          ''0123456789abcdef0123456789abcdef'' ''''
     = Inl (Errorf ''IP %s is not IPv4'' (Some [1, 2, 3]))"
    by blast
  from a b c d show ?thesis by blast
qed

section \<open>Verification: package proxy\<close>

subsection \<open>The choice of the strategies\<close>

text \<open>
  Claim C3. \<open>UseMiddleProxy\<close> is true exactly when the tag of the configuration is not
  empty, and \<open>NewServer\<close> then holds \<^verbatim>\<open>client.MiddleInit\<close> and the dialer built by
  \<^verbatim>\<open>telegram.NewMiddleTelegram\<close>; with an empty tag it holds \<^verbatim>\<open>client.DirectInit\<close> and
  the dialer built by \<^verbatim>\<open>telegram.NewDirectTelegram\<close>.
\<close>

theorem NewServer_mode_selection:
  "UseMiddleProxy c = (AdTag c \<noteq> []) \<and>
   (clientInit (NewServer c) = client_MiddleInit) = UseMiddleProxy c \<and>
   (clientInit (NewServer c) = client_DirectInit) = (AdTag c = []) \<and>
   (tg (NewServer c) = NewMiddleTelegram c) = UseMiddleProxy c \<and>
   (tg (NewServer c) = NewDirectTelegram c) = (AdTag c = []) \<and>
   conf (NewServer c) = c"
  by (simp add: UseMiddleProxy_def NewServer_def NewMiddleTelegram_def NewDirectTelegram_def)

subsection \<open>One pass of the pump\<close>

text \<open>
  Claim C5. One call of \<open>pump\<close> is transparent. When the read hands back a buffer and
  no error, \<open>pump\<close> hands exactly that buffer to the destination's \<^verbatim>\<open>Write\<close>, once, and
  returns what the write returns; when the read hands back an error, nothing is written
  and the error comes back annotated. So \<open>pump\<close> returns an error exactly when the read
  does or, the read having succeeded, the write does. The connection options and their
  acknowledgement flags play no part in \<open>pump\<close>.
\<close>

theorem pump_transparent:
  "(ReadCurrentData_src = (buf, None) \<longrightarrow>
      pump ReadCurrentData_src dst_Write = ([buf], snd (dst_Write buf))) \<and>
   (ReadCurrentData_src = (buf, Some e) \<longrightarrow>
      pump ReadCurrentData_src dst_Write = ([], Some (Annotate e ''Cannot pump the socket''))) \<and>
   (snd (pump ReadCurrentData_src dst_Write) \<noteq> None) =
      (snd ReadCurrentData_src \<noteq> None \<or>
       snd (dst_Write (fst ReadCurrentData_src)) \<noteq> None)"
  by (cases ReadCurrentData_src; cases "snd ReadCurrentData_src";
      cases "dst_Write (fst ReadCurrentData_src)")
     (auto simp: pump_def)

text \<open>
  The law at three bytes read without error, with a destination that takes every byte,
  and at a read that fails with the end of the stream.
\<close>

theorem pump_transparent_witness:
  "pump ([0x01, 0x02, 0xff], None) (\<lambda>b. (length b, None)) = ([[0x01, 0x02, 0xff]], None) \<and>
   pump ([], Some (External ''EOF'')) (\<lambda>b. (length b, None))
     = ([], Some (Annotate (External ''EOF'') ''Cannot pump the socket''))"
  using pump_transparent [of "([0x01, 0x02, 0xff], None)" "[0x01, 0x02, 0xff]" "\<lambda>b. (length b, None)"]
        pump_transparent [of "([], Some (External ''EOF''))" "[]" "\<lambda>b. (length b, None)" "External ''EOF''"]
  by simp

section \<open>Verification: package client and the connection handler\<close>

subsection \<open>DirectInit\<close>

lemma DirectInit_Returned_Inr:
  assumes "DirectInit env conn socketID conf' = (evs, Returned (Inr (socket, connOpts)))"
  shows "\<exists>frame obfs2 opts0 addr.
           SetSocketOptions_result env = None \<and>
           ExtractFrame_result env = Inr frame \<and>
           ParseObfuscated2ClientFrame_result env (Secret conf') frame = Inr (obfs2, opts0) \<and>
           RemoteAddr conn = TCP addr \<and>
           connOpts = opts0\<lparr>ConnectionProto := ConnectionProtocolAny, ClientAddr := Some addr\<rparr> \<and>
           socket = NewStreamCipherRWC
                      (NewTimeoutRWC conn socketID (PublicIPv4 conf') (PublicIPv6 conf'))
                      (Encryptor obfs2) (Decryptor obfs2)"
  using assms unfolding DirectInit_def Let_def
  by (auto split: option.splits sum.splits prod.splits net_Addr.splits)

lemma DirectInit_events:
  "fst (DirectInit env conn socketID conf') =
     (if SetSocketOptions_result env = None
      then [SetSocketOptions, SetReadDeadline (TimeAt (now env + handshakeTimeout)),
            ExtractFrame, SetReadDeadline ZeroTime]
      else [SetSocketOptions])"
  unfolding DirectInit_def Let_def
  by (auto split: option.splits sum.splits prod.splits net_Addr.splits)

lemma getClientStream_Returned_Inr:
  assumes "getClientStream s env conn socketID = (evs, Returned (Inr (connOpts, socket)))"
  shows "\<exists>socket0.
           call_clientInit (clientInit s) env conn socketID (conf s)
             = (evs, Returned (Inr (socket0, connOpts))) \<and>
           socket = NewCtxRWC (NewLogRWC (NewTrafficRWC socket0) socketID ''client'')"
  using assms unfolding getClientStream_def Let_def
  by (auto split: prod.splits go_result.splits sum.splits)

text \<open>
  Claim C6. The stack of wrappers on the client side, written from the outermost to the
  innermost, is: context, logging, traffic accounting, stream cipher, timeout, socket.
  \<open>DirectInit\<close> puts the timeout wrapper on the accepted connection and the cipher
  wrapper on that; \<open>getClientStream\<close> puts the traffic, the logging and the context
  wrapper, in this order, on whatever stream the client initialiser hands back.
\<close>

theorem client_wrapper_stack:
  "(DirectInit env conn socketID conf' = (evs, Returned (Inr (socket0, opts0))) \<longrightarrow>
      layers socket0 = [Cipher, Timeout, Socket] \<and>
      (\<exists>enc dec. socket0 =
         StreamCipherRWC (TimeoutRWC (RawConn conn) socketID (PublicIPv4 conf') (PublicIPv6 conf'))
           enc dec)) \<and>
   (getClientStream s env conn socketID = (evs, Returned (Inr (connOpts, socket))) \<longrightarrow>
      (\<exists>socket1. call_clientInit (clientInit s) env conn socketID (conf s)
                    = (evs, Returned (Inr (socket1, connOpts))) \<and>
                  socket = CtxRWC (LogRWC (TrafficRWC socket1) socketID ''client'') \<and>
                  layers socket = Ctx # Logging # Traffic # layers socket1)) \<and>
   (clientInit s = client_DirectInit \<and>
    getClientStream s env conn socketID = (evs, Returned (Inr (connOpts, socket))) \<longrightarrow>
      layers socket = [Ctx, Logging, Traffic, Cipher, Timeout, Socket] \<and>
      (\<exists>enc dec. socket =
         CtxRWC (LogRWC (TrafficRWC (StreamCipherRWC
           (TimeoutRWC (RawConn conn) socketID (PublicIPv4 (conf s)) (PublicIPv6 (conf s)))
           enc dec)) socketID ''client'')))"
proof -
  have direct: "layers socket0 = [Cipher, Timeout, Socket] \<and>
      (\<exists>enc dec. socket0 =
         StreamCipherRWC (TimeoutRWC (RawConn conn) socketID (PublicIPv4 conf') (PublicIPv6 conf'))
           enc dec)"
    if "DirectInit env conn socketID conf' = (evs, Returned (Inr (socket0, opts0)))"
    using DirectInit_Returned_Inr[OF that]
    by (auto simp: NewStreamCipherRWC_def NewTimeoutRWC_def)
  have outer: "\<exists>socket1. call_clientInit (clientInit s) env conn socketID (conf s)
                    = (evs, Returned (Inr (socket1, connOpts))) \<and>
                  socket = CtxRWC (LogRWC (TrafficRWC socket1) socketID ''client'') \<and>
                  layers socket = Ctx # Logging # Traffic # layers socket1"
    if "getClientStream s env conn socketID = (evs, Returned (Inr (connOpts, socket)))"
    using getClientStream_Returned_Inr[OF that]
    by (auto simp: NewCtxRWC_def NewLogRWC_def NewTrafficRWC_def)
  have whole: "layers socket = [Ctx, Logging, Traffic, Cipher, Timeout, Socket] \<and>
      (\<exists>enc dec. socket =
         CtxRWC (LogRWC (TrafficRWC (StreamCipherRWC
           (TimeoutRWC (RawConn conn) socketID (PublicIPv4 (conf s)) (PublicIPv6 (conf s)))
           enc dec)) socketID ''client''))"
    if a: "clientInit s = client_DirectInit \<and>
      getClientStream s env conn socketID = (evs, Returned (Inr (connOpts, socket)))"
  proof -
    from a obtain socket1 where
        i: "DirectInit env conn socketID (conf s) = (evs, Returned (Inr (socket1, connOpts)))"
        and w: "socket = NewCtxRWC (NewLogRWC (NewTrafficRWC socket1) socketID ''client'')"
      using getClientStream_Returned_Inr[of s env conn socketID evs connOpts socket]
      by (auto simp: call_clientInit_def)
    from DirectInit_Returned_Inr[OF i] w show ?thesis
      by (auto simp: NewStreamCipherRWC_def NewTimeoutRWC_def NewCtxRWC_def NewLogRWC_def
            NewTrafficRWC_def)
  qed
  show ?thesis
    using direct outer whole by blast
qed

lemma example_DirectInit:
  "DirectInit example_env example_conn ''id'' example_conf =
     ([SetSocketOptions, SetReadDeadline (TimeAt 1700000010000000000), ExtractFrame,
       SetReadDeadline ZeroTime],
      Returned (Inr
        (StreamCipherRWC (TimeoutRWC (RawConn example_conn) ''id'' None None)
           (replicate 32 0xe0, replicate 16 0xe1) (replicate 32 0xd0, replicate 16 0xd1),
         example_opts\<lparr>ConnectionProto := ConnectionProtocolAny,
                       ClientAddr := Some example_addr\<rparr>)))"
  by (simp add: DirectInit_def example_env_def example_conn_def example_conf_def
        example_obfs2_def handshakeTimeout_def Second_def NewStreamCipherRWC_def
        NewTimeoutRWC_def)

text \<open>The stack on the example connection, served in direct mode.\<close>

theorem client_wrapper_stack_witness:
  "layers (CtxRWC (LogRWC (TrafficRWC
      (StreamCipherRWC (TimeoutRWC (RawConn example_conn) ''id'' None None)
         (replicate 32 0xe0, replicate 16 0xe1) (replicate 32 0xd0, replicate 16 0xd1)))
      ''id'' ''client''))
   = [Ctx, Logging, Traffic, Cipher, Timeout, Socket] \<and>
   clientInit (NewServer example_conf) = client_DirectInit \<and>
   snd (getClientStream (NewServer example_conf) example_env example_conn ''id'') =
     Returned (Inr
       (example_opts\<lparr>ConnectionProto := ConnectionProtocolAny, ClientAddr := Some example_addr\<rparr>,
        CtxRWC (LogRWC (TrafficRWC
          (StreamCipherRWC (TimeoutRWC (RawConn example_conn) ''id'' None None)
             (replicate 32 0xe0, replicate 16 0xe1) (replicate 32 0xd0, replicate 16 0xd1)))
          ''id'' ''client'')))"
proof -
  have mode: "clientInit (NewServer example_conf) = client_DirectInit"
    by (simp add: NewServer_def example_conf_def)
  have conf: "conf (NewServer example_conf) = example_conf"
    by (simp add: NewServer_def example_conf_def)
  have run: "getClientStream (NewServer example_conf) example_env example_conn ''id'' =
     ([SetSocketOptions, SetReadDeadline (TimeAt 1700000010000000000), ExtractFrame,
       SetReadDeadline ZeroTime],
      Returned (Inr
       (example_opts\<lparr>ConnectionProto := ConnectionProtocolAny, ClientAddr := Some example_addr\<rparr>,
        CtxRWC (LogRWC (TrafficRWC
          (StreamCipherRWC (TimeoutRWC (RawConn example_conn) ''id'' None None)
             (replicate 32 0xe0, replicate 16 0xe1) (replicate 32 0xd0, replicate 16 0xd1)))
          ''id'' ''client''))))"
    by (simp add: getClientStream_def call_clientInit_def mode conf example_DirectInit
          NewCtxRWC_def NewLogRWC_def NewTrafficRWC_def)
  from client_wrapper_stack [of example_env example_conn "''id''" example_conf
      "[SetSocketOptions, SetReadDeadline (TimeAt 1700000010000000000), ExtractFrame,
        SetReadDeadline ZeroTime]"
      "StreamCipherRWC (TimeoutRWC (RawConn example_conn) ''id'' None None)
         (replicate 32 0xe0, replicate 16 0xe1) (replicate 32 0xd0, replicate 16 0xd1)"
      "example_opts\<lparr>ConnectionProto := ConnectionProtocolAny, ClientAddr := Some example_addr\<rparr>"
      "NewServer example_conf"
      "example_opts\<lparr>ConnectionProto := ConnectionProtocolAny, ClientAddr := Some example_addr\<rparr>"
      "CtxRWC (LogRWC (TrafficRWC
          (StreamCipherRWC (TimeoutRWC (RawConn example_conn) ''id'' None None)
             (replicate 32 0xe0, replicate 16 0xe1) (replicate 32 0xd0, replicate 16 0xd1)))
          ''id'' ''client'')"]
    mode run
  have "layers (CtxRWC (LogRWC (TrafficRWC
      (StreamCipherRWC (TimeoutRWC (RawConn example_conn) ''id'' None None)
         (replicate 32 0xe0, replicate 16 0xe1) (replicate 32 0xd0, replicate 16 0xd1)))
      ''id'' ''client''))
   = [Ctx, Logging, Traffic, Cipher, Timeout, Socket]"
    by blast
  with mode run show ?thesis by simp
qed

text \<open>
  Claim C7. When \<open>DirectInit\<close> succeeds, the options it returns are those of the codec
  with the protocol set to \<open>ConnectionProtocolAny\<close> and the client address set to the
  peer of the accepted connection, and the stream it returns is a cipher wrapper whose
  read-side transform is the Encryptor and whose write-side transform is the Decryptor
  of the codec.
\<close>

theorem DirectInit_success:
  "DirectInit env conn socketID conf' = (evs, Returned (Inr (socket, connOpts))) \<longrightarrow>
     (\<exists>frame obfs2 opts0 addr.
        ExtractFrame_result env = Inr frame \<and>
        ParseObfuscated2ClientFrame_result env (Secret conf') frame = Inr (obfs2, opts0) \<and>
        RemoteAddr conn = TCP addr \<and>
        connOpts = opts0\<lparr>ConnectionProto := ConnectionProtocolAny, ClientAddr := Some addr\<rparr> \<and>
        ConnectionProto connOpts = ConnectionProtocolAny \<and>
        ClientAddr connOpts = Some addr \<and>
        (\<exists>under. socket = StreamCipherRWC under (Encryptor obfs2) (Decryptor obfs2)) \<and>
        read_cipher socket = Encryptor obfs2 \<and>
        write_cipher socket = Decryptor obfs2)"
proof
  assume "DirectInit env conn socketID conf' = (evs, Returned (Inr (socket, connOpts)))"
  from DirectInit_Returned_Inr[OF this] obtain frame obfs2 opts0 addr where
      f: "ExtractFrame_result env = Inr frame"
      and p: "ParseObfuscated2ClientFrame_result env (Secret conf') frame = Inr (obfs2, opts0)"
      and r: "RemoteAddr conn = TCP addr"
      and o: "connOpts = opts0\<lparr>ConnectionProto := ConnectionProtocolAny, ClientAddr := Some addr\<rparr>"
      and s: "socket = NewStreamCipherRWC
                      (NewTimeoutRWC conn socketID (PublicIPv4 conf') (PublicIPv6 conf'))
                      (Encryptor obfs2) (Decryptor obfs2)"
    by blast
  from o have o1: "ConnectionProto connOpts = ConnectionProtocolAny" and o2: "ClientAddr connOpts = Some addr"
    by simp_all
  from s have s1: "\<exists>under. socket = StreamCipherRWC under (Encryptor obfs2) (Decryptor obfs2)"
      and s2: "read_cipher socket = Encryptor obfs2" and s3: "write_cipher socket = Decryptor obfs2"
    by (simp_all add: NewStreamCipherRWC_def)
  from f p r o o1 o2 s1 s2 s3
  show "\<exists>frame obfs2 opts0 addr.
        ExtractFrame_result env = Inr frame \<and>
        ParseObfuscated2ClientFrame_result env (Secret conf') frame = Inr (obfs2, opts0) \<and>
        RemoteAddr conn = TCP addr \<and>
        connOpts = opts0\<lparr>ConnectionProto := ConnectionProtocolAny, ClientAddr := Some addr\<rparr> \<and>
        ConnectionProto connOpts = ConnectionProtocolAny \<and>
        ClientAddr connOpts = Some addr \<and>
        (\<exists>under. socket = StreamCipherRWC under (Encryptor obfs2) (Decryptor obfs2)) \<and>
        read_cipher socket = Encryptor obfs2 \<and>
        write_cipher socket = Decryptor obfs2"
    by blast
qed

text \<open>
  The law on the example connection: the options carry the peer's address and the
  protocol \<open>ConnectionProtocolAny\<close>, and the cipher wrapper reads with the example's
  Encryptor and writes with its Decryptor.
\<close>

theorem DirectInit_success_witness:
  "(\<exists>evs socket connOpts.
      DirectInit example_env example_conn ''id'' example_conf = (evs, Returned (Inr (socket, connOpts))) \<and>
      ConnectionProto connOpts = ConnectionProtocolAny \<and>
      ClientAddr connOpts = Some example_addr \<and>
      read_cipher socket = Encryptor example_obfs2 \<and>
      write_cipher socket = Decryptor example_obfs2)"
proof -
  let ?evs = "[SetSocketOptions, SetReadDeadline (TimeAt 1700000010000000000), ExtractFrame,
       SetReadDeadline ZeroTime]"
  let ?socket = "StreamCipherRWC (TimeoutRWC (RawConn example_conn) ''id'' None None)
           (replicate 32 0xe0, replicate 16 0xe1) (replicate 32 0xd0, replicate 16 0xd1)"
  let ?opts = "example_opts\<lparr>ConnectionProto := ConnectionProtocolAny,
                       ClientAddr := Some example_addr\<rparr>"
  have run: "DirectInit example_env example_conn ''id'' example_conf = (?evs, Returned (Inr (?socket, ?opts)))"
    by (rule example_DirectInit)
  have peer: "RemoteAddr example_conn = TCP example_addr"
    by (simp add: example_conn_def)
  have parse: "ParseObfuscated2ClientFrame_result example_env (Secret example_conf) (replicate 64 0x5a)
                 = Inr (example_obfs2, example_opts)"
    by (simp add: example_env_def example_conf_def)
  have frame: "ExtractFrame_result example_env = Inr (replicate 64 0x5a)"
    by (simp add: example_env_def)
  from DirectInit_success [of example_env example_conn "''id''" example_conf ?evs ?socket ?opts] run
  obtain frame obfs2 opts0 addr where
      "ExtractFrame_result example_env = Inr frame"
      "ParseObfuscated2ClientFrame_result example_env (Secret example_conf) frame = Inr (obfs2, opts0)"
      "RemoteAddr example_conn = TCP addr"
      "ConnectionProto ?opts = ConnectionProtocolAny"
      "ClientAddr ?opts = Some addr"
      "read_cipher ?socket = Encryptor obfs2"
      "write_cipher ?socket = Decryptor obfs2"
    by blast
  with frame parse peer have
      "ConnectionProto ?opts = ConnectionProtocolAny \<and> ClientAddr ?opts = Some example_addr \<and>
       read_cipher ?socket = Encryptor example_obfs2 \<and> write_cipher ?socket = Decryptor example_obfs2"
    by simp
  with run show ?thesis by blast
qed

subsection \<open>The handler of a connection\<close>

lemma run_deferred_cleanup_last:
  "cleanup \<notin> set ds \<Longrightarrow>
   run_deferred (ds @ [cleanup]) p =
     (fst (run_deferred ds p) @ [closeConnection, Close_conn] @
      (case p of
         Some r \<Rightarrow> [LogEntry Errorw ''Crash of accept handler'' [(''error'', Recovered r)]]
       | None \<Rightarrow> []),
      None)"
proof (induction ds arbitrary: p)
  case Nil
  show ?case by simp
next
  case (Cons d ds)
  then show ?case by (cases d) (simp_all add: Let_def case_prod_beta)
qed

lemma accept_body_defers:
  assumes "accept_body s env conn = (evs, defers, fin)"
  shows "defers = [cleanup] \<or> defers = [clientConn_Close, cleanup] \<or>
         defers = [tgConn_Close, clientConn_Close, cleanup]"
  using assms unfolding accept_body_def Let_def
  by (auto split: prod.splits go_result.splits sum.splits if_splits)

lemma accept_body_defers_append:
  assumes "accept_body s env conn = (evs, defers, fin)"
  shows "\<exists>ds. defers = ds @ [cleanup] \<and> cleanup \<notin> set ds"
  using accept_body_defers[OF assms] by auto

lemma accept_exit:
  assumes body: "accept_body s env conn = (evs, defers, fin)" and fin: "fin \<noteq> Blocked"
  shows "\<exists>ds. defers = ds @ [cleanup] \<and> cleanup \<notin> set ds \<and>
           accept s env conn =
             (evs @ fst (run_deferred ds (case fin of Panic r \<Rightarrow> Some r | _ \<Rightarrow> None)) @
              [closeConnection, Close_conn] @
              (case fin of
                 Panic r \<Rightarrow> [LogEntry Errorw ''Crash of accept handler'' [(''error'', Recovered r)]]
               | _ \<Rightarrow> []),
              Done)"
proof -
  from accept_body_defers_append[OF body] obtain ds where
      ds: "defers = ds @ [cleanup]" and nc: "cleanup \<notin> set ds"
    by blast
  show ?thesis
  proof (cases fin)
    case Return
    then show ?thesis
      using body ds nc run_deferred_cleanup_last[OF nc, of None]
      by (simp add: accept_def)
  next
    case (Panic r)
    then show ?thesis
      using body ds nc run_deferred_cleanup_last[OF nc, of "Some r"]
      by (simp add: accept_def)
  next
    case Blocked
    with fin show ?thesis by simp
  qed
qed

lemma accept_never_crashes: "snd (accept s env conn) \<noteq> Crashed r"
proof -
  obtain evs defers fin where body: "accept_body s env conn = (evs, defers, fin)"
    by (cases "accept_body s env conn") auto
  show ?thesis
  proof (cases "fin = Blocked")
    case True
    with body show ?thesis by (simp add: accept_def)
  next
    case False
    from accept_exit[OF body False] show ?thesis by auto
  qed
qed

lemma accept_closes_conn:
  assumes "snd (accept s env conn) \<noteq> Waiting"
  shows "\<exists>before after. fst (accept s env conn) = before @ closeConnection # Close_conn # after \<and>
           (after = [] \<or> (\<exists>r. after = [LogEntry Errorw ''Crash of accept handler'' [(''error'', Recovered r)]]))"
proof -
  obtain evs defers fin where body: "accept_body s env conn = (evs, defers, fin)"
    by (cases "accept_body s env conn") auto
  have nb: "fin \<noteq> Blocked"
    using assms body by (auto simp: accept_def)
  from accept_exit[OF body nb] obtain ds where
     a: "accept s env conn =
             (evs @ fst (run_deferred ds (case fin of Panic r \<Rightarrow> Some r | _ \<Rightarrow> None)) @
              [closeConnection, Close_conn] @
              (case fin of
                 Panic r \<Rightarrow> [LogEntry Errorw ''Crash of accept handler'' [(''error'', Recovered r)]]
               | _ \<Rightarrow> []),
              Done)"
    by blast
  show ?thesis
  proof (cases fin)
    case Return
    with a have "fst (accept s env conn) = (evs @ fst (run_deferred ds None)) @ closeConnection # Close_conn # []"
      by simp
    then show ?thesis by blast
  next
    case (Panic r)
    with a have "fst (accept s env conn) = (evs @ fst (run_deferred ds (Some r))) @ closeConnection # Close_conn #
        [LogEntry Errorw ''Crash of accept handler'' [(''error'', Recovered r)]]"
      by simp
    then show ?thesis by blast
  next
    case Blocked
    with nb show ?thesis by simp
  qed
qed

lemma accept_client_init_error:
  assumes mode: "clientInit s = client_DirectInit"
      and init: "DirectInit env conn (socketID_of env) (conf s) = (evs, Returned (Inl e))"
  shows "accept s env conn =
     ([newConnection,
       LogEntry Debugw ''Client connected''
         [(''addr'', AddrString (RemoteAddr conn)), (''socketid'', Str (socketID_of env))]] @
      evs @
      [LogEntry Warnw ''Cannot initialize client connection''
         [(''addr'', AddrString (RemoteAddr conn)), (''socketid'', Str (socketID_of env)),
          (''error'', Err (Annotate e ''Cannot init client connection''))],
       closeConnection, Close_conn],
      Done)"
  using mode init
  by (simp add: accept_def accept_body_def getClientStream_def call_clientInit_def Let_def)

lemma DirectInit_failures:
  assumes "SetSocketOptions_result env = None"
  shows "ExtractFrame_result env = Inl err \<Longrightarrow>
           snd (DirectInit env conn socketID conf') = Returned (Inl (Annotate err ''Cannot extract frame''))"
    and "ExtractFrame_result env = Inr frame \<Longrightarrow>
         ParseObfuscated2ClientFrame_result env (Secret conf') frame = Inl err \<Longrightarrow>
           snd (DirectInit env conn socketID conf') = Returned (Inl (Annotate err ''Cannot parse obfuscated frame''))"
  using assms by (simp_all add: DirectInit_def)

text \<open>
  Claim C8. Once the socket options are set, the calls \<open>DirectInit\<close> makes on the
  accepted connection are, in this order and with nothing in between: the read
  deadline set to ten seconds from now, the extraction of the frame, the read deadline
  cleared. When the extraction or the parsing of the frame fails, \<open>DirectInit\<close> returns
  the annotated error, and with it neither a stream nor options. The handler \<open>accept\<close>
  closes the accepted socket on every path on which it ends, by a return or by a panic,
  as the last thing but the line logged for a recovered panic; on the path of a failed
  \<open>DirectInit\<close> it logs the error, counts the connection as closed and closes the
  socket.
\<close>

theorem handshake_deadline_and_close:
  "(SetSocketOptions_result env = None \<longrightarrow>
      fst (DirectInit env conn socketID conf') =
        [SetSocketOptions, SetReadDeadline (TimeAt (now env + 10 * 1000000000)),
         ExtractFrame, SetReadDeadline ZeroTime]) \<and>
   (SetSocketOptions_result env = None \<and> ExtractFrame_result env = Inl err \<longrightarrow>
      snd (DirectInit env conn socketID conf') =
        Returned (Inl (Annotate err ''Cannot extract frame''))) \<and>
   (SetSocketOptions_result env = None \<and> ExtractFrame_result env = Inr frame \<and>
    ParseObfuscated2ClientFrame_result env (Secret conf') frame = Inl err \<longrightarrow>
      snd (DirectInit env conn socketID conf') =
        Returned (Inl (Annotate err ''Cannot parse obfuscated frame''))) \<and>
   (snd (accept s env conn) \<noteq> Waiting \<longrightarrow>
      (\<exists>before after.
         fst (accept s env conn) = before @ closeConnection # Close_conn # after \<and>
         (after = [] \<or>
          (\<exists>r. after = [LogEntry Errorw ''Crash of accept handler'' [(''error'', Recovered r)]])))) \<and>
   (clientInit s = client_DirectInit \<and>
    DirectInit env conn (socketID_of env) (conf s) = (evs, Returned (Inl e)) \<longrightarrow>
      accept s env conn =
        ([newConnection,
          LogEntry Debugw ''Client connected''
            [(''addr'', AddrString (RemoteAddr conn)), (''socketid'', Str (socketID_of env))]] @
         evs @
         [LogEntry Warnw ''Cannot initialize client connection''
            [(''addr'', AddrString (RemoteAddr conn)), (''socketid'', Str (socketID_of env)),
             (''error'', Err (Annotate e ''Cannot init client connection''))],
          closeConnection, Close_conn],
         Done))"
proof -
  have p1: "fst (DirectInit env conn socketID conf') =
        [SetSocketOptions, SetReadDeadline (TimeAt (now env + 10 * 1000000000)),
         ExtractFrame, SetReadDeadline ZeroTime]" if "SetSocketOptions_result env = None"
    using that by (simp add: DirectInit_events handshakeTimeout_def Second_def)
  show ?thesis
    using p1 DirectInit_failures[of env] accept_closes_conn[of s env conn]
      accept_client_init_error[of s env conn evs e]
    by (intro conjI impI) blast+
qed

text \<open>
  The law on the example connection in direct mode, with a handshake that times out:
  the deadline is set and cleared around the extraction, and the handler logs the
  error, counts the connection as closed and closes the socket.
\<close>

theorem handshake_deadline_and_close_witness:
  "accept (NewServer example_conf)
      (example_env\<lparr>ExtractFrame_result := Inl (External ''i/o timeout'')\<rparr>) example_conn =
     ([newConnection,
       LogEntry Debugw ''Client connected''
         [(''addr'', AddrString (TCP example_addr)),
          (''socketid'', Str ''6ba7b810-9dad-11d1-80b4-00c04fd430c8'')],
       SetSocketOptions, SetReadDeadline (TimeAt 1700000010000000000), ExtractFrame,
       SetReadDeadline ZeroTime,
       LogEntry Warnw ''Cannot initialize client connection''
         [(''addr'', AddrString (TCP example_addr)),
          (''socketid'', Str ''6ba7b810-9dad-11d1-80b4-00c04fd430c8''),
          (''error'', Err (Annotate (Annotate (External ''i/o timeout'') ''Cannot extract frame'')
                            ''Cannot init client connection''))],
       closeConnection, Close_conn],
      Done)"
proof -
  let ?env = "example_env\<lparr>ExtractFrame_result := Inl (External ''i/o timeout'')\<rparr>"
  let ?evs = "[SetSocketOptions, SetReadDeadline (TimeAt 1700000010000000000), ExtractFrame,
       SetReadDeadline ZeroTime]"
  have mode: "clientInit (NewServer example_conf) = client_DirectInit"
    by (simp add: NewServer_def example_conf_def)
  have conf: "conf (NewServer example_conf) = example_conf"
    by (simp add: NewServer_def example_conf_def)
  have opt: "SetSocketOptions_result ?env = None"
    by (simp add: example_env_def)
  have frame: "ExtractFrame_result ?env = Inl (External ''i/o timeout'')"
    by simp
  have sid: "socketID_of ?env = ''6ba7b810-9dad-11d1-80b4-00c04fd430c8''"
    by (simp add: example_env_def)
  have now: "now ?env = 1700000000000000000"
    by (simp add: example_env_def)
  have peer: "RemoteAddr example_conn = TCP example_addr"
    by (simp add: example_conn_def)
  note law = handshake_deadline_and_close [of ?env example_conn "socketID_of ?env" example_conf
      "External ''i/o timeout''" _ "NewServer example_conf" ?evs
      "Annotate (External ''i/o timeout'') ''Cannot extract frame''"]
  from law opt now have evs: "fst (DirectInit ?env example_conn (socketID_of ?env) example_conf) = ?evs"
    by simp
  from law opt frame have res: "snd (DirectInit ?env example_conn (socketID_of ?env) example_conf)
      = Returned (Inl (Annotate (External ''i/o timeout'') ''Cannot extract frame''))"
    by blast
  from evs res have "DirectInit ?env example_conn (socketID_of ?env) (conf (NewServer example_conf))
      = (?evs, Returned (Inl (Annotate (External ''i/o timeout'') ''Cannot extract frame'')))"
    unfolding conf by (metis prod.collapse)
  with law mode have "accept (NewServer example_conf) ?env example_conn =
        ([newConnection,
          LogEntry Debugw ''Client connected''
            [(''addr'', AddrString (RemoteAddr example_conn)), (''socketid'', Str (socketID_of ?env))]] @
         ?evs @
         [LogEntry Warnw ''Cannot initialize client connection''
            [(''addr'', AddrString (RemoteAddr example_conn)), (''socketid'', Str (socketID_of ?env)),
             (''error'', Err (Annotate (Annotate (External ''i/o timeout'') ''Cannot extract frame'')
                               ''Cannot init client connection''))],
          closeConnection, Close_conn],
         Done)"
    by blast
  then show ?thesis
    unfolding sid peer by simp
qed

subsection \<open>The accept loop\<close>

lemma serve_loop_append: "serve_loop (xs @ ys) = serve_loop xs @ serve_loop ys"
  by (induction xs rule: serve_loop.induct) simp_all

lemma serve_loop_length: "length (serve_loop xs) = length xs"
  by (induction xs rule: serve_loop.induct) simp_all

lemma accept_recovers:
  assumes "accept_body s env conn = (evs, defers, Panic r)"
  shows "snd (accept s env conn) = Done"
    and "last (fst (accept s env conn)) =
           LogEntry Errorw ''Crash of accept handler'' [(''error'', Recovered r)]"
proof -
  have nb: "Panic r \<noteq> Blocked" by simp
  from accept_exit[OF assms nb] obtain ds where
      a: "accept s env conn =
             (evs @ fst (run_deferred ds (Some r)) @
              [closeConnection, Close_conn] @
              [LogEntry Errorw ''Crash of accept handler'' [(''error'', Recovered r)]],
              Done)"
    by auto
  from a show "snd (accept s env conn) = Done" by simp
  from a show "last (fst (accept s env conn)) =
           LogEntry Errorw ''Crash of accept handler'' [(''error'', Recovered r)]"
    by simp
qed

text \<open>
  The accept loop and the handler's own goroutine. Once the listening socket exists,
  \<open>Serve\<close> is in its loop after any number of results of \<^verbatim>\<open>Accept\<close>: every result is
  answered, a failed one by a warning in the log, after which the results that follow
  are served as before. \<open>Serve\<close> has returned exactly when the listening socket could
  not be created, with that error annotated. The goroutine that runs the handler
  \<open>accept\<close> never ends in a crash: a panic raised in it while the handler runs is
  recovered by the handler's own deferred function, which logs it as its last act, and
  the goroutine ends normally. \<^verbatim>\<open>recover\<close> acts on the goroutine that deferred it, so
  this says nothing of the two goroutines the handler starts.
\<close>

theorem accept_loop_resilient:
  "Serve (Inr lsock) results = InLoop (serve_loop results) \<and>
   length (serve_loop results) = length results \<and>
   serve_loop (before @ Inl err # after) =
     serve_loop before @
     Logged Warn ''Cannot allocate incoming connection'' [(''error'', Err err)] #
     serve_loop after \<and>
   (Serve Listen_result results = Exited e) =
     (\<exists>err'. Listen_result = Inl err' \<and> e = Annotate err' ''Cannot create listen socket'') \<and>
   snd (accept s env conn) \<noteq> Crashed r \<and>
   (accept_body s env conn = (evs, defers, Panic r) \<longrightarrow>
      snd (accept s env conn) = Done \<and>
      last (fst (accept s env conn)) =
        LogEntry Errorw ''Crash of accept handler'' [(''error'', Recovered r)])"
proof -
  have a: "Serve (Inr lsock) results = InLoop (serve_loop results)"
    by (simp add: Serve_def)
  have b: "serve_loop (before @ Inl err # after) =
     serve_loop before @
     Logged Warn ''Cannot allocate incoming connection'' [(''error'', Err err)] #
     serve_loop after"
    by (simp add: serve_loop_append)
  have c: "(Serve Listen_result results = Exited e) =
     (\<exists>err'. Listen_result = Inl err' \<and> e = Annotate err' ''Cannot create listen socket'')"
    by (cases Listen_result) (auto simp: Serve_def)
  show ?thesis
    using a b c serve_loop_length[of results] accept_never_crashes[of s env conn r]
      accept_recovers[of s env conn evs defers r]
    by blast
qed

text \<open>
  The law on a listener whose second \<^verbatim>\<open>Accept\<close> fails, and on a connection whose peer
  has no TCP address, served in direct mode: the type assertion of \<open>DirectInit\<close> panics,
  the handler recovers and logs the panic, and the socket is closed.
\<close>

theorem accept_loop_resilient_witness:
  "Serve (Inr 3) [Inr example_conn, Inl (External ''too many open files''), Inr example_unix_conn] =
     InLoop [GoAccept example_conn,
             Logged Warn ''Cannot allocate incoming connection''
               [(''error'', Err (External ''too many open files''))],
             GoAccept example_unix_conn] \<and>
   snd (accept (NewServer example_conf) example_env example_unix_conn) = Done \<and>
   last (fst (accept (NewServer example_conf) example_env example_unix_conn)) =
     LogEntry Errorw ''Crash of accept handler''
       [(''error'', Recovered ''interface conversion: net.Addr is not *net.TCPAddr'')]"
proof -
  let ?r = "''interface conversion: net.Addr is not *net.TCPAddr''"
  let ?evs = "[newConnection,
       LogEntry Debugw ''Client connected''
         [(''addr'', AddrString (OtherAddr ''unix'')),
          (''socketid'', Str ''6ba7b810-9dad-11d1-80b4-00c04fd430c8'')],
       SetSocketOptions, SetReadDeadline (TimeAt 1700000010000000000), ExtractFrame,
       SetReadDeadline ZeroTime]"
  have body: "accept_body (NewServer example_conf) example_env example_unix_conn
                = (?evs, [cleanup], Panic ?r)"
    by (simp add: accept_body_def getClientStream_def call_clientInit_def NewServer_def
          DirectInit_def example_env_def example_unix_conn_def example_conf_def
          handshakeTimeout_def Second_def)
  note law = accept_loop_resilient [of 3
      "[Inr example_conn, Inl (External ''too many open files''), Inr example_unix_conn]"
      "[Inr example_conn]" "External ''too many open files''" "[Inr example_unix_conn]"
      _ _ "NewServer example_conf" example_env example_unix_conn ?r ?evs "[cleanup]"]
  from law have "Serve (Inr 3) [Inr example_conn, Inl (External ''too many open files''), Inr example_unix_conn]
      = InLoop (serve_loop ([Inr example_conn] @ Inl (External ''too many open files'') # [Inr example_unix_conn]))"
    by simp
  also from law have "serve_loop ([Inr example_conn] @ Inl (External ''too many open files'') # [Inr example_unix_conn])
      = serve_loop [Inr example_conn] @
        Logged Warn ''Cannot allocate incoming connection'' [(''error'', Err (External ''too many open files''))] #
        serve_loop [Inr example_unix_conn]"
    by blast
  finally have serve: "Serve (Inr 3) [Inr example_conn, Inl (External ''too many open files''), Inr example_unix_conn] =
     InLoop [GoAccept example_conn,
             Logged Warn ''Cannot allocate incoming connection''
               [(''error'', Err (External ''too many open files''))],
             GoAccept example_unix_conn]"
    by simp
  from law body have "snd (accept (NewServer example_conf) example_env example_unix_conn) = Done \<and>
      last (fst (accept (NewServer example_conf) example_env example_unix_conn)) =
        LogEntry Errorw ''Crash of accept handler'' [(''error'', Recovered ?r)]"
    by blast
  with serve show ?thesis by blast
qed

subsection \<open>The two pump loops\<close>

lemma client_pump_loop_flags:
  "Pump opts writes \<in> set (fst (client_pump_loop socketID ios connOpts)) \<Longrightarrow>
   \<not> QuickAck (ReadHacks opts) \<and> \<not> SimpleAck (ReadHacks opts)"
proof (induction ios arbitrary: connOpts)
  case Nil
  then show ?case by simp
next
  case (Cons io rest)
  then show ?case
    by (auto simp: Let_def case_prod_beta split: option.splits)
qed

lemma telegram_pump_loop_flags:
  "Pump opts writes \<in> set (fst (telegram_pump_loop socketID ios connOpts)) \<Longrightarrow>
   \<not> QuickAck (WriteHacks opts) \<and> \<not> SimpleAck (WriteHacks opts)"
proof (induction ios arbitrary: connOpts)
  case Nil
  then show ?case by simp
next
  case (Cons io rest)
  then show ?case
    by (auto simp: Let_def case_prod_beta split: option.splits)
qed

lemma client_pump_loop_passes:
  "\<forall>io\<in>set ios. goes_through io \<Longrightarrow>
   snd (client_pump_loop socketID ios connOpts) = (options_after ReadHacks_reset ios connOpts, Pumping) \<and>
   length (fst (client_pump_loop socketID ios connOpts)) = length ios \<and>
   (\<forall>ev\<in>set (fst (client_pump_loop socketID ios connOpts)). \<exists>opts writes. ev = Pump opts writes)"
proof (induction ios arbitrary: connOpts)
  case Nil
  then show ?case by simp
next
  case (Cons io rest)
  have reset: "connOpts\<lparr>ReadHacks := ReadHacks connOpts\<lparr>QuickAck := False, SimpleAck := False\<rparr>\<rparr>
                 = ReadHacks_reset connOpts"
    by (simp add: ReadHacks_reset_def)
  from Cons.prems have io: "goes_through io" and rest: "\<forall>io\<in>set rest. goes_through io"
    by simp_all
  from Cons.IH[OF rest, of "hacks_effect io (ReadHacks_reset connOpts)"] io
  show ?case
    by (simp add: Let_def case_prod_beta goes_through_def reset)
qed

lemma telegram_pump_loop_passes:
  "\<forall>io\<in>set ios. goes_through io \<Longrightarrow>
   snd (telegram_pump_loop socketID ios connOpts) = (options_after WriteHacks_reset ios connOpts, Pumping) \<and>
   length (fst (telegram_pump_loop socketID ios connOpts)) = length ios \<and>
   (\<forall>ev\<in>set (fst (telegram_pump_loop socketID ios connOpts)). \<exists>opts writes. ev = Pump opts writes)"
proof (induction ios arbitrary: connOpts)
  case Nil
  then show ?case by simp
next
  case (Cons io rest)
  have reset: "connOpts\<lparr>WriteHacks := WriteHacks connOpts\<lparr>QuickAck := False, SimpleAck := False\<rparr>\<rparr>
                 = WriteHacks_reset connOpts"
    by (simp add: WriteHacks_reset_def)
  from Cons.prems have io: "goes_through io" and rest: "\<forall>io\<in>set rest. goes_through io"
    by simp_all
  from Cons.IH[OF rest, of "hacks_effect io (WriteHacks_reset connOpts)"] io
  show ?case
    by (simp add: Let_def case_prod_beta goes_through_def reset)
qed

text \<open>
  A run of a loop, split at a pass: when all the passes before it go through, the loop
  has called \<open>pump\<close> once for each of them and then does what it does on the rest of
  the list, started from the options those passes leave.
\<close>

lemma client_pump_loop_split:
  "\<forall>io\<in>set before. goes_through io \<Longrightarrow>
   client_pump_loop socketID (before @ rest) connOpts =
     (fst (client_pump_loop socketID before connOpts) @
        fst (client_pump_loop socketID rest (options_after ReadHacks_reset before connOpts)),
      snd (client_pump_loop socketID rest (options_after ReadHacks_reset before connOpts)))"
proof (induction before arbitrary: connOpts)
  case Nil
  then show ?case by simp
next
  case (Cons io before)
  have reset: "connOpts\<lparr>ReadHacks := ReadHacks connOpts\<lparr>QuickAck := False, SimpleAck := False\<rparr>\<rparr>
                 = ReadHacks_reset connOpts"
    by (simp add: ReadHacks_reset_def)
  from Cons.prems have io: "goes_through io" and rest: "\<forall>io\<in>set before. goes_through io"
    by simp_all
  from Cons.IH[OF rest, of "hacks_effect io (ReadHacks_reset connOpts)"] io
  show ?case
    by (simp add: Let_def case_prod_beta goes_through_def reset)
qed

lemma telegram_pump_loop_split:
  "\<forall>io\<in>set before. goes_through io \<Longrightarrow>
   telegram_pump_loop socketID (before @ rest) connOpts =
     (fst (telegram_pump_loop socketID before connOpts) @
        fst (telegram_pump_loop socketID rest (options_after WriteHacks_reset before connOpts)),
      snd (telegram_pump_loop socketID rest (options_after WriteHacks_reset before connOpts)))"
proof (induction before arbitrary: connOpts)
  case Nil
  then show ?case by simp
next
  case (Cons io before)
  have reset: "connOpts\<lparr>WriteHacks := WriteHacks connOpts\<lparr>QuickAck := False, SimpleAck := False\<rparr>\<rparr>
                 = WriteHacks_reset connOpts"
    by (simp add: WriteHacks_reset_def)
  from Cons.prems have io: "goes_through io" and rest: "\<forall>io\<in>set before. goes_through io"
    by simp_all
  from Cons.IH[OF rest, of "hacks_effect io (WriteHacks_reset connOpts)"] io
  show ?case
    by (simp add: Let_def case_prod_beta goes_through_def reset)
qed

text \<open>What a loop does in the pass it starts with, by the three ways the pass can go.\<close>

lemma client_pump_loop_first:
  "client_pump_loop socketID (io # rest) connOpts =
     (case panic_in_pump io of
        Some r \<Rightarrow> ([], ReadHacks_reset connOpts, PanicIn r)
      | None \<Rightarrow>
         (case snd (pump (ReadCurrentData_result io) (Write_result io)) of
            Some e \<Rightarrow>
              ([Pump (ReadHacks_reset connOpts) (fst (pump (ReadCurrentData_result io) (Write_result io))),
                LogEntry Infow ''Client stream is aborted''
                  [(''socketid'', Str socketID), (''error'', Err e)]],
               hacks_effect io (ReadHacks_reset connOpts), Aborted e)
          | None \<Rightarrow>
              (Pump (ReadHacks_reset connOpts) (fst (pump (ReadCurrentData_result io) (Write_result io))) #
                 fst (client_pump_loop socketID rest (hacks_effect io (ReadHacks_reset connOpts))),
               snd (client_pump_loop socketID rest (hacks_effect io (ReadHacks_reset connOpts))))))"
proof -
  have reset: "connOpts\<lparr>ReadHacks := ReadHacks connOpts\<lparr>QuickAck := False, SimpleAck := False\<rparr>\<rparr>
                 = ReadHacks_reset connOpts"
    by (simp add: ReadHacks_reset_def)
  show ?thesis
    by (simp add: Let_def case_prod_beta reset split: option.splits)
qed

lemma telegram_pump_loop_first:
  "telegram_pump_loop socketID (io # rest) connOpts =
     (case panic_in_pump io of
        Some r \<Rightarrow> ([], WriteHacks_reset connOpts, PanicIn r)
      | None \<Rightarrow>
         (case snd (pump (ReadCurrentData_result io) (Write_result io)) of
            Some e \<Rightarrow>
              ([Pump (WriteHacks_reset connOpts) (fst (pump (ReadCurrentData_result io) (Write_result io))),
                LogEntry Infow ''Telegram stream is aborted''
                  [(''socketid'', Str socketID), (''error'', Err e)]],
               hacks_effect io (WriteHacks_reset connOpts), Aborted e)
          | None \<Rightarrow>
              (Pump (WriteHacks_reset connOpts) (fst (pump (ReadCurrentData_result io) (Write_result io))) #
                 fst (telegram_pump_loop socketID rest (hacks_effect io (WriteHacks_reset connOpts))),
               snd (telegram_pump_loop socketID rest (hacks_effect io (WriteHacks_reset connOpts))))))"
proof -
  have reset: "connOpts\<lparr>WriteHacks := WriteHacks connOpts\<lparr>QuickAck := False, SimpleAck := False\<rparr>\<rparr>
                 = WriteHacks_reset connOpts"
    by (simp add: WriteHacks_reset_def)
  show ?thesis
    by (simp add: Let_def case_prod_beta reset split: option.splits)
qed

lemma client_pump_loop_at:
  assumes before: "\<forall>io\<in>set before. goes_through io" and np: "panic_in_pump io = None"
  shows "length before < length (fst (client_pump_loop socketID (before @ io # rest) connOpts)) \<and>
         fst (client_pump_loop socketID (before @ io # rest) connOpts) ! length before =
           Pump (ReadHacks_reset (options_after ReadHacks_reset before connOpts))
                (fst (pump (ReadCurrentData_result io) (Write_result io)))"
proof -
  let ?o = "options_after ReadHacks_reset before connOpts"
  have len: "length (fst (client_pump_loop socketID before connOpts)) = length before"
    using client_pump_loop_passes[OF before] by blast
  have split: "fst (client_pump_loop socketID (before @ io # rest) connOpts) =
      fst (client_pump_loop socketID before connOpts) @ fst (client_pump_loop socketID (io # rest) ?o)"
    using client_pump_loop_split[OF before, of socketID "io # rest" connOpts] by simp
  have first: "\<exists>tl. fst (client_pump_loop socketID (io # rest) ?o) =
      Pump (ReadHacks_reset ?o) (fst (pump (ReadCurrentData_result io) (Write_result io))) # tl"
    unfolding client_pump_loop_first using np by (simp split: option.splits)
  then obtain tl where tl: "fst (client_pump_loop socketID (io # rest) ?o) =
      Pump (ReadHacks_reset ?o) (fst (pump (ReadCurrentData_result io) (Write_result io))) # tl"
    by blast
  show ?thesis
    unfolding split tl using len by (simp add: nth_append)
qed

lemma telegram_pump_loop_at:
  assumes before: "\<forall>io\<in>set before. goes_through io" and np: "panic_in_pump io = None"
  shows "length before < length (fst (telegram_pump_loop socketID (before @ io # rest) connOpts)) \<and>
         fst (telegram_pump_loop socketID (before @ io # rest) connOpts) ! length before =
           Pump (WriteHacks_reset (options_after WriteHacks_reset before connOpts))
                (fst (pump (ReadCurrentData_result io) (Write_result io)))"
proof -
  let ?o = "options_after WriteHacks_reset before connOpts"
  have len: "length (fst (telegram_pump_loop socketID before connOpts)) = length before"
    using telegram_pump_loop_passes[OF before] by blast
  have split: "fst (telegram_pump_loop socketID (before @ io # rest) connOpts) =
      fst (telegram_pump_loop socketID before connOpts) @ fst (telegram_pump_loop socketID (io # rest) ?o)"
    using telegram_pump_loop_split[OF before, of socketID "io # rest" connOpts] by simp
  have first: "\<exists>tl. fst (telegram_pump_loop socketID (io # rest) ?o) =
      Pump (WriteHacks_reset ?o) (fst (pump (ReadCurrentData_result io) (Write_result io))) # tl"
    unfolding telegram_pump_loop_first using np by (simp split: option.splits)
  then obtain tl where tl: "fst (telegram_pump_loop socketID (io # rest) ?o) =
      Pump (WriteHacks_reset ?o) (fst (pump (ReadCurrentData_result io) (Write_result io))) # tl"
    by blast
  show ?thesis
    unfolding split tl using len by (simp add: nth_append)
qed

lemma client_pump_loop_stops:
  assumes before: "\<forall>io\<in>set before. goes_through io" and np: "panic_in_pump io = None"
      and err: "snd (pump (ReadCurrentData_result io) (Write_result io)) = Some e"
  shows "client_pump_loop socketID (before @ io # rest) connOpts =
           (fst (client_pump_loop socketID before connOpts) @
            [Pump (ReadHacks_reset (options_after ReadHacks_reset before connOpts))
                (fst (pump (ReadCurrentData_result io) (Write_result io))),
             LogEntry Infow ''Client stream is aborted''
               [(''socketid'', Str socketID), (''error'', Err e)]],
            hacks_effect io (ReadHacks_reset (options_after ReadHacks_reset before connOpts)),
            Aborted e)"
  unfolding client_pump_loop_split[OF before] client_pump_loop_first
  using np err by simp

lemma telegram_pump_loop_stops:
  assumes before: "\<forall>io\<in>set before. goes_through io" and np: "panic_in_pump io = None"
      and err: "snd (pump (ReadCurrentData_result io) (Write_result io)) = Some e"
  shows "telegram_pump_loop socketID (before @ io # rest) connOpts =
           (fst (telegram_pump_loop socketID before connOpts) @
            [Pump (WriteHacks_reset (options_after WriteHacks_reset before connOpts))
                (fst (pump (ReadCurrentData_result io) (Write_result io))),
             LogEntry Infow ''Telegram stream is aborted''
               [(''socketid'', Str socketID), (''error'', Err e)]],
            hacks_effect io (WriteHacks_reset (options_after WriteHacks_reset before connOpts)),
            Aborted e)"
  unfolding telegram_pump_loop_split[OF before] telegram_pump_loop_first
  using np err by simp

lemma client_pump_loop_panics:
  assumes before: "\<forall>io\<in>set before. goes_through io" and p: "panic_in_pump io = Some r"
  shows "client_pump_loop socketID (before @ io # rest) connOpts =
           (fst (client_pump_loop socketID before connOpts),
            ReadHacks_reset (options_after ReadHacks_reset before connOpts),
            PanicIn r)"
  unfolding client_pump_loop_split[OF before] client_pump_loop_first
  using p by simp

lemma telegram_pump_loop_panics:
  assumes before: "\<forall>io\<in>set before. goes_through io" and p: "panic_in_pump io = Some r"
  shows "telegram_pump_loop socketID (before @ io # rest) connOpts =
           (fst (telegram_pump_loop socketID before connOpts),
            WriteHacks_reset (options_after WriteHacks_reset before connOpts),
            PanicIn r)"
  unfolding telegram_pump_loop_split[OF before] telegram_pump_loop_first
  using p by simp

text \<open>
  Claim C9. In each of the two pump loops every pass resets the two acknowledgement
  flags of its direction before it moves bytes. Every call of \<open>pump\<close> made by the loop
  from the client to Telegram sees both flags of \<open>ReadHacks\<close> false, every call made by
  the loop from Telegram to the client sees both flags of \<open>WriteHacks\<close> false. More
  exactly: the first call sees the options the loop was started with, changed in those
  two flags only; and when the passes before a pass have gone through, the call of that
  pass is made, with the buffers of its own read, and sees the options those passes
  have left (each one resetting the flags before its wrappers acted on the options),
  with the flags reset once more. While the passes go through there is one call for
  each; the loop stops with the pass whose \<open>pump\<close> returns an error, after that call
  and the log line, and with the pass in which \<open>pump\<close> panics.
\<close>

theorem hacks_reset_before_every_pump:
  "(Pump opts writes \<in> set (fst (client_pump_loop socketID ios connOpts)) \<longrightarrow>
      \<not> QuickAck (ReadHacks opts) \<and> \<not> SimpleAck (ReadHacks opts)) \<and>
   (Pump opts writes \<in> set (fst (telegram_pump_loop socketID ios connOpts)) \<longrightarrow>
      \<not> QuickAck (WriteHacks opts) \<and> \<not> SimpleAck (WriteHacks opts)) \<and>
   (panic_in_pump io = None \<longrightarrow>
      hd (fst (client_pump_loop socketID (io # rest) connOpts)) =
        Pump (connOpts\<lparr>ReadHacks := \<lparr> QuickAck = False, SimpleAck = False \<rparr>\<rparr>)
             (fst (pump (ReadCurrentData_result io) (Write_result io))) \<and>
      hd (fst (telegram_pump_loop socketID (io # rest) connOpts)) =
        Pump (connOpts\<lparr>WriteHacks := \<lparr> QuickAck = False, SimpleAck = False \<rparr>\<rparr>)
             (fst (pump (ReadCurrentData_result io) (Write_result io)))) \<and>
   ((\<forall>b\<in>set before. goes_through b) \<and> panic_in_pump io = None \<longrightarrow>
      length before < length (fst (client_pump_loop socketID (before @ io # rest) connOpts)) \<and>
      fst (client_pump_loop socketID (before @ io # rest) connOpts) ! length before =
        Pump (ReadHacks_reset (options_after ReadHacks_reset before connOpts))
             (fst (pump (ReadCurrentData_result io) (Write_result io))) \<and>
      length before < length (fst (telegram_pump_loop socketID (before @ io # rest) connOpts)) \<and>
      fst (telegram_pump_loop socketID (before @ io # rest) connOpts) ! length before =
        Pump (WriteHacks_reset (options_after WriteHacks_reset before connOpts))
             (fst (pump (ReadCurrentData_result io) (Write_result io)))) \<and>
   ((\<forall>b\<in>set ios. goes_through b) \<longrightarrow>
      length (fst (client_pump_loop socketID ios connOpts)) = length ios \<and>
      (\<forall>ev\<in>set (fst (client_pump_loop socketID ios connOpts)). \<exists>o' w'. ev = Pump o' w') \<and>
      snd (client_pump_loop socketID ios connOpts) = (options_after ReadHacks_reset ios connOpts, Pumping) \<and>
      length (fst (telegram_pump_loop socketID ios connOpts)) = length ios \<and>
      (\<forall>ev\<in>set (fst (telegram_pump_loop socketID ios connOpts)). \<exists>o' w'. ev = Pump o' w') \<and>
      snd (telegram_pump_loop socketID ios connOpts) = (options_after WriteHacks_reset ios connOpts, Pumping)) \<and>
   ((\<forall>b\<in>set before. goes_through b) \<and> panic_in_pump io = None \<and>
    snd (pump (ReadCurrentData_result io) (Write_result io)) = Some e \<longrightarrow>
      client_pump_loop socketID (before @ io # rest) connOpts =
        (fst (client_pump_loop socketID before connOpts) @
         [Pump (ReadHacks_reset (options_after ReadHacks_reset before connOpts))
             (fst (pump (ReadCurrentData_result io) (Write_result io))),
          LogEntry Infow ''Client stream is aborted''
            [(''socketid'', Str socketID), (''error'', Err e)]],
         hacks_effect io (ReadHacks_reset (options_after ReadHacks_reset before connOpts)),
         Aborted e) \<and>
      telegram_pump_loop socketID (before @ io # rest) connOpts =
        (fst (telegram_pump_loop socketID before connOpts) @
         [Pump (WriteHacks_reset (options_after WriteHacks_reset before connOpts))
             (fst (pump (ReadCurrentData_result io) (Write_result io))),
          LogEntry Infow ''Telegram stream is aborted''
            [(''socketid'', Str socketID), (''error'', Err e)]],
         hacks_effect io (WriteHacks_reset (options_after WriteHacks_reset before connOpts)),
         Aborted e)) \<and>
   ((\<forall>b\<in>set before. goes_through b) \<and> panic_in_pump io = Some r \<longrightarrow>
      client_pump_loop socketID (before @ io # rest) connOpts =
        (fst (client_pump_loop socketID before connOpts),
         ReadHacks_reset (options_after ReadHacks_reset before connOpts), PanicIn r) \<and>
      telegram_pump_loop socketID (before @ io # rest) connOpts =
        (fst (telegram_pump_loop socketID before connOpts),
         WriteHacks_reset (options_after WriteHacks_reset before connOpts), PanicIn r))"
proof -
  have first: "hd (fst (client_pump_loop socketID (io # rest) connOpts)) =
        Pump (connOpts\<lparr>ReadHacks := \<lparr> QuickAck = False, SimpleAck = False \<rparr>\<rparr>)
             (fst (pump (ReadCurrentData_result io) (Write_result io))) \<and>
      hd (fst (telegram_pump_loop socketID (io # rest) connOpts)) =
        Pump (connOpts\<lparr>WriteHacks := \<lparr> QuickAck = False, SimpleAck = False \<rparr>\<rparr>)
             (fst (pump (ReadCurrentData_result io) (Write_result io)))"
    if "panic_in_pump io = None"
    unfolding client_pump_loop_first telegram_pump_loop_first
    using that by (simp add: ReadHacks_reset_def WriteHacks_reset_def split: option.splits)
  have at: "length before < length (fst (client_pump_loop socketID (before @ io # rest) connOpts)) \<and>
      fst (client_pump_loop socketID (before @ io # rest) connOpts) ! length before =
        Pump (ReadHacks_reset (options_after ReadHacks_reset before connOpts))
             (fst (pump (ReadCurrentData_result io) (Write_result io))) \<and>
      length before < length (fst (telegram_pump_loop socketID (before @ io # rest) connOpts)) \<and>
      fst (telegram_pump_loop socketID (before @ io # rest) connOpts) ! length before =
        Pump (WriteHacks_reset (options_after WriteHacks_reset before connOpts))
             (fst (pump (ReadCurrentData_result io) (Write_result io)))"
    if "(\<forall>b\<in>set before. goes_through b) \<and> panic_in_pump io = None"
    using that client_pump_loop_at[of before io socketID rest connOpts]
      telegram_pump_loop_at[of before io socketID rest connOpts]
    by blast
  have passes: "length (fst (client_pump_loop socketID ios connOpts)) = length ios \<and>
      (\<forall>ev\<in>set (fst (client_pump_loop socketID ios connOpts)). \<exists>o' w'. ev = Pump o' w') \<and>
      snd (client_pump_loop socketID ios connOpts) = (options_after ReadHacks_reset ios connOpts, Pumping) \<and>
      length (fst (telegram_pump_loop socketID ios connOpts)) = length ios \<and>
      (\<forall>ev\<in>set (fst (telegram_pump_loop socketID ios connOpts)). \<exists>o' w'. ev = Pump o' w') \<and>
      snd (telegram_pump_loop socketID ios connOpts) = (options_after WriteHacks_reset ios connOpts, Pumping)"
    if "\<forall>b\<in>set ios. goes_through b"
    using client_pump_loop_passes[OF that, of socketID connOpts]
      telegram_pump_loop_passes[OF that, of socketID connOpts]
    by blast
  have stops: "client_pump_loop socketID (before @ io # rest) connOpts =
        (fst (client_pump_loop socketID before connOpts) @
         [Pump (ReadHacks_reset (options_after ReadHacks_reset before connOpts))
             (fst (pump (ReadCurrentData_result io) (Write_result io))),
          LogEntry Infow ''Client stream is aborted''
            [(''socketid'', Str socketID), (''error'', Err e)]],
         hacks_effect io (ReadHacks_reset (options_after ReadHacks_reset before connOpts)),
         Aborted e) \<and>
      telegram_pump_loop socketID (before @ io # rest) connOpts =
        (fst (telegram_pump_loop socketID before connOpts) @
         [Pump (WriteHacks_reset (options_after WriteHacks_reset before connOpts))
             (fst (pump (ReadCurrentData_result io) (Write_result io))),
          LogEntry Infow ''Telegram stream is aborted''
            [(''socketid'', Str socketID), (''error'', Err e)]],
         hacks_effect io (WriteHacks_reset (options_after WriteHacks_reset before connOpts)),
         Aborted e)"
    if "(\<forall>b\<in>set before. goes_through b) \<and> panic_in_pump io = None \<and>
        snd (pump (ReadCurrentData_result io) (Write_result io)) = Some e"
    using that client_pump_loop_stops[of before io e socketID rest connOpts]
      telegram_pump_loop_stops[of before io e socketID rest connOpts]
    by blast
  have panics: "client_pump_loop socketID (before @ io # rest) connOpts =
        (fst (client_pump_loop socketID before connOpts),
         ReadHacks_reset (options_after ReadHacks_reset before connOpts), PanicIn r) \<and>
      telegram_pump_loop socketID (before @ io # rest) connOpts =
        (fst (telegram_pump_loop socketID before connOpts),
         WriteHacks_reset (options_after WriteHacks_reset before connOpts), PanicIn r)"
    if "(\<forall>b\<in>set before. goes_through b) \<and> panic_in_pump io = Some r"
    using that client_pump_loop_panics[of before io r socketID rest connOpts]
      telegram_pump_loop_panics[of before io r socketID rest connOpts]
    by blast
  show ?thesis
    apply (intro conjI impI)
    subgoal using client_pump_loop_flags by blast
    subgoal using client_pump_loop_flags by blast
    subgoal using telegram_pump_loop_flags by blast
    subgoal using telegram_pump_loop_flags by blast
    subgoal using first by blast
    subgoal using first by blast
    subgoal using at by blast
    subgoal using at by blast
    subgoal using at by blast
    subgoal using at by blast
    subgoal using passes by blast
    subgoal using passes by blast
    subgoal using passes by blast
    subgoal using passes by blast
    subgoal using passes by blast
    subgoal using passes by blast
    subgoal using stops by blast
    subgoal using stops by blast
    subgoal using panics by blast
    subgoal using panics by blast
    done
qed

lemma example_pass_goes_through: "goes_through example_pass"
  by (simp add: goes_through_def example_pass_def pump_def)

lemma example_options_after:
  "options_after ReadHacks_reset [example_pass] example_opts = example_opts"
  "options_after WriteHacks_reset [example_pass] example_opts = example_opts"
  by (simp_all add: example_pass_def example_opts_def ReadHacks_reset_def WriteHacks_reset_def)

text \<open>
  The law on two passes of the example, whose wrappers set all four flags in every
  pass, from options that have all four flags set. The second call of \<open>pump\<close> in the
  loop from the client sees the two flags of \<open>ReadHacks\<close> reset and those of
  \<open>WriteHacks\<close> still set; in the loop from Telegram it is the other way round. Both
  calls hand on the two bytes read.
\<close>

theorem hacks_reset_before_every_pump_witness:
  "fst (client_pump_loop ''id'' [example_pass, example_pass] example_opts) ! 1 =
     Pump (example_opts\<lparr>ReadHacks := \<lparr> QuickAck = False, SimpleAck = False \<rparr>\<rparr>) [[0x01, 0x02]] \<and>
   fst (telegram_pump_loop ''id'' [example_pass, example_pass] example_opts) ! 1 =
     Pump (example_opts\<lparr>WriteHacks := \<lparr> QuickAck = False, SimpleAck = False \<rparr>\<rparr>) [[0x01, 0x02]] \<and>
   QuickAck (ReadHacks (hacks_effect example_pass example_opts)) \<and>
   SimpleAck (ReadHacks (hacks_effect example_pass example_opts)) \<and>
   QuickAck (WriteHacks (hacks_effect example_pass example_opts)) \<and>
   SimpleAck (WriteHacks (hacks_effect example_pass example_opts))"
proof -
  have before: "\<forall>b\<in>set [example_pass]. goes_through b"
    by (simp add: example_pass_goes_through)
  have np: "panic_in_pump example_pass = None"
    by (simp add: example_pass_def)
  have moved: "fst (pump (ReadCurrentData_result example_pass) (Write_result example_pass)) = [[0x01, 0x02]]"
    by (simp add: example_pass_def pump_def)
  have eff: "QuickAck (ReadHacks (hacks_effect example_pass example_opts)) \<and>
   SimpleAck (ReadHacks (hacks_effect example_pass example_opts)) \<and>
   QuickAck (WriteHacks (hacks_effect example_pass example_opts)) \<and>
   SimpleAck (WriteHacks (hacks_effect example_pass example_opts))"
    by (simp add: example_pass_def)
  from hacks_reset_before_every_pump [of _ _ "''id''" _ example_opts example_pass "[]" "[example_pass]"]
    before np
  have "fst (client_pump_loop ''id'' ([example_pass] @ example_pass # []) example_opts) ! length [example_pass] =
        Pump (ReadHacks_reset (options_after ReadHacks_reset [example_pass] example_opts))
             (fst (pump (ReadCurrentData_result example_pass) (Write_result example_pass))) \<and>
      fst (telegram_pump_loop ''id'' ([example_pass] @ example_pass # []) example_opts) ! length [example_pass] =
        Pump (WriteHacks_reset (options_after WriteHacks_reset [example_pass] example_opts))
             (fst (pump (ReadCurrentData_result example_pass) (Write_result example_pass)))"
    by blast
  then have "fst (client_pump_loop ''id'' [example_pass, example_pass] example_opts) ! 1 =
     Pump (example_opts\<lparr>ReadHacks := \<lparr> QuickAck = False, SimpleAck = False \<rparr>\<rparr>) [[0x01, 0x02]] \<and>
   fst (telegram_pump_loop ''id'' [example_pass, example_pass] example_opts) ! 1 =
     Pump (example_opts\<lparr>WriteHacks := \<lparr> QuickAck = False, SimpleAck = False \<rparr>\<rparr>) [[0x01, 0x02]]"
    unfolding example_options_after moved ReadHacks_reset_def WriteHacks_reset_def
    by (simp only: append.simps list.size One_nat_def add_0 plus_nat.add_0)
  with eff show ?thesis by blast
qed

subsection \<open>The goroutines of the pumps\<close>

lemma pump_goroutine_no_recover:
  "snd (snd (client_pump_loop socketID ios connOpts)) = PanicIn r \<Longrightarrow>
     client_pump_goroutine socketID ios connOpts =
       (fst (client_pump_loop socketID ios connOpts) @ [WaitDone], Crashed r)"
  "snd (snd (telegram_pump_loop socketID ios connOpts)) = PanicIn r \<Longrightarrow>
     telegram_pump_goroutine socketID ios connOpts =
       (fst (telegram_pump_loop socketID ios connOpts) @ [WaitDone], Crashed r)"
  by (auto simp: client_pump_goroutine_def telegram_pump_goroutine_def Let_def
        split: prod.splits loop_end.splits)

text \<open>
  Claim C4 does not hold of the code. The accept loop and the handler's own goroutine
  are as the claim says (\<open>accept_loop_resilient\<close>), but the handler starts two more
  goroutines for the connection, and a panic in one of them is recovered nowhere: the
  function literal defers \<^verbatim>\<open>wait.Done()\<close> only. On the example connection, with a
  second pass in which a callee of \<open>pump\<close> panics, each of the two goroutines makes
  its first call of \<open>pump\<close>, releases the wait group and ends in a crash, which in Go
  ends the process and the accept loop with it.
\<close>

theorem pump_goroutine_panic_crashes:
  "client_pump_goroutine ''id''
      [example_pass, example_pass\<lparr>panic_in_pump := Some ''runtime error: slice bounds out of range''\<rparr>]
      example_opts =
     ([Pump (example_opts\<lparr>ReadHacks := \<lparr> QuickAck = False, SimpleAck = False \<rparr>\<rparr>) [[0x01, 0x02]],
       WaitDone],
      Crashed ''runtime error: slice bounds out of range'') \<and>
   telegram_pump_goroutine ''id''
      [example_pass, example_pass\<lparr>panic_in_pump := Some ''runtime error: slice bounds out of range''\<rparr>]
      example_opts =
     ([Pump (example_opts\<lparr>WriteHacks := \<lparr> QuickAck = False, SimpleAck = False \<rparr>\<rparr>) [[0x01, 0x02]],
       WaitDone],
      Crashed ''runtime error: slice bounds out of range'')"
  by (simp add: client_pump_goroutine_def telegram_pump_goroutine_def example_pass_def
        example_opts_def pump_def)

end
